theory Spec2Isabelle
  imports Main
begin

section \<open>Values, documents and the store\<close>

text \<open>
  The controllers of the library catalogue (\<^verbatim>\<open>bookController.js\<close>, the two versions of
  \<^verbatim>\<open>bookInstanceController.js\<close> and the author controller) are request handlers: each reads
  the request, queries or changes the document store, and calls \<^verbatim>\<open>res.render\<close>,
  \<^verbatim>\<open>res.redirect\<close>, \<^verbatim>\<open>next\<close> or \<^verbatim>\<open>debug\<close>. A handler is embedded as a function from the
  store and the request to the list of those calls in the order the code makes them, and,
  when it writes, to the store it leaves behind.

  A JavaScript value met in a request body or a document field: \<^verbatim>\<open>undefined\<close> (also a
  field that is absent), \<^verbatim>\<open>null\<close>, a string, or a \<^verbatim>\<open>Date\<close> (its time value in
  milliseconds).
\<close>

type_synonym oid = string

datatype jsval = Undefined | Null | Str string | DateV int

text \<open>
  Modelled from the spec: the Mongoose models \<^verbatim>\<open>../models/author\<close>, \<^verbatim>\<open>../models/book\<close>,
  \<^verbatim>\<open>../models/genre\<close> and \<^verbatim>\<open>../models/bookinstance\<close> are not among the sources. The
  documents carry the fields the spec's data model lists and the controllers read and
  write; a field a handler fills from the request body holds the value found there. A
  collection is the list of its documents in natural order. Casting, defaults and
  validation of the schemas are not modelled.
\<close>

record author_doc =
  author_id :: oid
  first_name :: jsval
  family_name :: jsval
  date_of_birth :: jsval
  date_of_death :: jsval

record genre_doc =
  genre_id :: oid
  genre_name :: string

record book_doc =
  book_id :: oid
  title :: string
  author :: oid
  summary :: string
  isbn :: string
  genre :: "oid list"

record bookinstance_doc =
  bookinstance_id :: oid
  book :: jsval
  imprint :: jsval
  status :: jsval
  due_back :: jsval

record store =
  authors :: "author_doc list"
  books :: "book_doc list"
  genres :: "genre_doc list"
  bookinstances :: "bookinstance_doc list"

text \<open>
  Modelled from the spec: the queries of the missing models. \<^verbatim>\<open>findById\<close> yields the
  document with the identifier or \<^verbatim>\<open>null\<close> (\<open>None\<close>); \<^verbatim>\<open>save\<close> inserts a new document and
  fails on an identifier already present; \<^verbatim>\<open>findByIdAndRemove\<close> removes the document with
  the identifier, if any, and nothing when the identifier is not a string;
  \<^verbatim>\<open>findByIdAndUpdate\<close> (called with the options \<^verbatim>\<open>{}\<close>) changes the document with the
  identifier, if any, and yields the document as it was before, or \<^verbatim>\<open>null\<close>.
\<close>

definition findById :: "('d \<Rightarrow> oid) \<Rightarrow> 'd list \<Rightarrow> oid \<Rightarrow> 'd option" where
  "findById key ds i = find (\<lambda>d. key d = i) ds"

fun remove_id :: "('d \<Rightarrow> oid) \<Rightarrow> oid \<Rightarrow> 'd list \<Rightarrow> 'd list" where
  "remove_id key i [] = []"
| "remove_id key i (d # ds) = (if key d = i then ds else d # remove_id key i ds)"

fun findByIdAndRemove :: "('d \<Rightarrow> oid) \<Rightarrow> 'd list \<Rightarrow> jsval \<Rightarrow> 'd list" where
  "findByIdAndRemove key ds (Str i) = remove_id key i ds"
| "findByIdAndRemove key ds v = ds"

fun update_id :: "('d \<Rightarrow> oid) \<Rightarrow> oid \<Rightarrow> ('d \<Rightarrow> 'd) \<Rightarrow> 'd list \<Rightarrow> 'd list" where
  "update_id key i f [] = []"
| "update_id key i f (d # ds) = (if key d = i then f d # ds else d # update_id key i f ds)"

definition findByIdAndUpdate ::
  "('d \<Rightarrow> oid) \<Rightarrow> 'd list \<Rightarrow> oid \<Rightarrow> ('d \<Rightarrow> 'd) \<Rightarrow> 'd option \<times> 'd list" where
  "findByIdAndUpdate key ds i f = (findById key ds i, update_id key i f ds)"

datatype error =
  Error string "nat option"
| TypeError string
| DuplicateKey oid

definition save :: "('d \<Rightarrow> oid) \<Rightarrow> 'd \<Rightarrow> 'd list \<Rightarrow> error + 'd list" where
  "save key d ds =
     (case findById key ds (key d) of
        None \<Rightarrow> Inr (ds @ [d])
      | Some x \<Rightarrow> Inl (DuplicateKey (key d)))"

text \<open>\<^verbatim>\<open>Book.find({ author: id }, "title summary")\<close>: the books of an author, projected.\<close>

record book_summary =
  bs_id :: oid
  bs_title :: string
  bs_summary :: string

definition books_by_author :: "store \<Rightarrow> oid \<Rightarrow> book_summary list" where
  "books_by_author st i =
     map (\<lambda>b. \<lparr>bs_id = book_id b, bs_title = title b, bs_summary = summary b\<rparr>)
       (filter (\<lambda>b. author b = i) (books st))"

text \<open>\<^verbatim>\<open>populate\<close> replaces a reference by the document it names, or by \<^verbatim>\<open>null\<close>.\<close>

type_synonym populated_instance = "bookinstance_doc \<times> book_doc option"

type_synonym populated_book = "book_doc \<times> author_doc option \<times> genre_doc list"

definition populate_book :: "store \<Rightarrow> bookinstance_doc \<Rightarrow> populated_instance" where
  "populate_book st bi =
     (bi, case book bi of Str b \<Rightarrow> findById book_id (books st) b | v \<Rightarrow> None)"

definition populate_author_genre :: "store \<Rightarrow> book_doc \<Rightarrow> populated_book" where
  "populate_author_genre st b =
     (b, findById author_id (authors st) (author b),
      concat (map (\<lambda>g. case findById genre_id (genres st) g of None \<Rightarrow> [] | Some d \<Rightarrow> [d])
        (genre b)))"

section \<open>Requests and the calls a handler makes\<close>

text \<open>
  The path parameter \<^verbatim>\<open>req.params.id\<close> and the body \<^verbatim>\<open>req.body\<close>. A field of a submitted form
  is a string or absent; the chains below write other values (a date, \<^verbatim>\<open>null\<close>) into the
  body. A field that the form repeats (an array) is outside the model.
\<close>

record request =
  params_id :: oid
  body :: "string \<Rightarrow> jsval"

text \<open>One error of \<^verbatim>\<open>validationResult(req).array()\<close>: the field, the message, the value.\<close>

record verror =
  path :: string
  msg :: string
  rejected :: jsval

datatype local =
  LStr string
| LAuthor "author_doc option"
| LBookSummaries "book_summary list"
| LBook populated_book
| LBooks "book_doc list"
| LBookInstance "bookinstance_doc option"
| LBookInstances "bookinstance_doc list"
| LPopulatedInstance "populated_instance option"
| LPopulatedInstances "populated_instance list"
| LErrors "verror list"

text \<open>
  The target of a redirect: a literal path, or the \<^verbatim>\<open>url\<close> virtual of a document, which the
  missing models define from the document's identifier.
\<close>

datatype location = Path string | author_url oid | bookinstance_url oid

datatype action =
  Render string "(string \<times> local) list"
| Redirect location
| Next error
| Debug string

fun is_Debug :: "action \<Rightarrow> bool" where
  "is_Debug (Debug s) = True"
| "is_Debug a = False"

fun is_Render :: "action \<Rightarrow> bool" where
  "is_Render (Render v ls) = True"
| "is_Render a = False"

definition responses :: "action list \<Rightarrow> action list" where
  "responses tr = filter (\<lambda>a. \<not> is_Debug a) tr"

section \<open>Detail and list handlers\<close>

text \<open>\<^verbatim>\<open>src/controllers/bookInstanceController.js\<close>, the module whose other handlers are stubs.\<close>

definition stub_bookinstance_list :: "store \<Rightarrow> request \<Rightarrow> action list" where
  "stub_bookinstance_list st req =
     (let allBookInstances = map (populate_book st) (bookinstances st) in
      [Render ''index''
         [(''title'', LStr ''Book Instance List''),
          (''bookinstance_list'', LPopulatedInstances allBookInstances),
          (''route'', LStr ''bookinstance_list.ejs'')]])"

definition stub_bookinstance_detail :: "store \<Rightarrow> request \<Rightarrow> action list" where
  "stub_bookinstance_detail st req =
     (let bookInstance =
            map_option (populate_book st)
              (findById bookinstance_id (bookinstances st) (params_id req)) in
      if bookInstance = None then
        [Next (Error ''Book copy not found'' (Some 404))]
      else
        [Render ''index''
           [(''title'', LStr ''Book:''),
            (''bookinstance'', LPopulatedInstance bookInstance),
            (''route'', LStr ''bookinstance_detail.ejs'')]])"

text \<open>The full BookInstance controller (\<^verbatim>\<open>src/unnamed/part_000\<close>).\<close>

definition bookinstance_list :: "store \<Rightarrow> request \<Rightarrow> action list" where
  "bookinstance_list st req =
     (let allBookInstances = map (populate_book st) (bookinstances st) in
      [Render ''index''
         [(''title'', LStr ''Book Instance List''),
          (''bookinstance_list'', LPopulatedInstances allBookInstances),
          (''route'', LStr ''bookinstance_list.ejs'')]])"

definition bookinstance_detail :: "store \<Rightarrow> request \<Rightarrow> action list" where
  "bookinstance_detail st req =
     (let bookInstance =
            map_option (populate_book st)
              (findById bookinstance_id (bookinstances st) (params_id req)) in
      if bookInstance = None then
        [Debug (''id not found on get: '' @ params_id req),
         Next (Error ''Book copy not found'' (Some 404))]
      else
        [Render ''index''
           [(''title'', LStr ''Book:''),
            (''bookinstance'', LPopulatedInstance bookInstance),
            (''route'', LStr ''bookinstance_detail.ejs'')]])"

text \<open>The author controller (\<^verbatim>\<open>src/unnamed/part_001\<close>).\<close>

definition author_detail :: "store \<Rightarrow> request \<Rightarrow> action list" where
  "author_detail st req =
     (let author = findById author_id (authors st) (params_id req);
          allBooksByAuthor = books_by_author st (params_id req) in
      if author = None then
        [Debug (''id not found on get: '' @ params_id req),
         Next (Error ''Author not found'' (Some 404))]
      else
        [Render ''index''
           [(''title'', LStr ''Author Detail''),
            (''author'', LAuthor author),
            (''author_books'', LBookSummaries allBooksByAuthor),
            (''route'', LStr ''author_detail.ejs'')]])"

text \<open>The book controller (\<^verbatim>\<open>src/controllers/bookController.js\<close>).\<close>

definition book_detail :: "store \<Rightarrow> request \<Rightarrow> action list" where
  "book_detail st req =
     (let bookInstances =
            filter (\<lambda>bi. book bi = Str (params_id req)) (bookinstances st) in
      case findById book_id (books st) (params_id req) of
        None \<Rightarrow> [Next (Error ''Book not found'' (Some 404))]
      | Some b \<Rightarrow>
          [Render ''index''
             [(''title'', LStr (title b)),
              (''book'', LBook (populate_author_genre st b)),
              (''book_instances'', LBookInstances bookInstances),
              (''route'', LStr ''book_detail.ejs'')]])"

section \<open>The validation chains\<close>

text \<open>
  The POST handlers are arrays: validation chains built with \<^verbatim>\<open>body(field, message)\<close> of
  express-validator, then the handler proper. The library is not part of the repository.
  Its primitives, which come from validator.js, are parameters of the model: what a chain
  does with them is written out below, what they compute is left open, so that a theorem
  about a handler holds for every behaviour of the primitives.
\<close>

record validatorjs =
  trim :: "string \<Rightarrow> string"
  escape :: "string \<Rightarrow> string"
  isLength :: "nat \<Rightarrow> string \<Rightarrow> bool"
  isAlphanumeric :: "string \<Rightarrow> bool"
  isISO8601 :: "string \<Rightarrow> bool"
  Date_parse :: "string \<Rightarrow> int option"
  toISOString :: "int \<Rightarrow> string"

datatype validator = IsLength nat | IsAlphanumeric | IsISO8601

datatype sanitizer = Trim | Escape | ToDate

text \<open>A method call on a chain, and an item of the stack the calls build.\<close>

datatype call = V validator | S sanitizer | WithMessage string | OptionalFalsy

datatype item = StandardValidation validator "string option" | Sanitization sanitizer

record chain =
  c_field :: string
  c_message :: "string option"
  c_optional :: bool
  c_stack :: "item list"

text \<open>
  \<^verbatim>\<open>withMessage\<close> sets the message of the validator added last; a sanitizer added in
  between does not change which validator that is. (No chain of the controllers calls it
  before a validator.)
\<close>

fun set_message :: "string \<Rightarrow> item list \<Rightarrow> item list" where
  "set_message m [] = []"
| "set_message m (StandardValidation v old # r) = StandardValidation v (Some m) # r"
| "set_message m (Sanitization s # r) = Sanitization s # set_message m r"

definition withMessage :: "string \<Rightarrow> item list \<Rightarrow> item list" where
  "withMessage m stack = rev (set_message m (rev stack))"

fun apply_call :: "chain \<Rightarrow> call \<Rightarrow> chain" where
  "apply_call c (V v) = c\<lparr>c_stack := c_stack c @ [StandardValidation v None]\<rparr>"
| "apply_call c (S s) = c\<lparr>c_stack := c_stack c @ [Sanitization s]\<rparr>"
| "apply_call c (WithMessage m) = c\<lparr>c_stack := withMessage m (c_stack c)\<rparr>"
| "apply_call c OptionalFalsy = c\<lparr>c_optional := True\<rparr>"

definition body_chain :: "string \<Rightarrow> string option \<Rightarrow> call list \<Rightarrow> chain" where
  "body_chain f m calls =
     foldl apply_call \<lparr>c_field = f, c_message = m, c_optional = False, c_stack = []\<rparr> calls"

text \<open>The string a validator or sanitizer is given for a value.\<close>

fun toString :: "validatorjs \<Rightarrow> jsval \<Rightarrow> string" where
  "toString L (Str s) = s"
| "toString L (DateV t) = toISOString L t"
| "toString L Undefined = []"
| "toString L Null = []"

fun falsy :: "jsval \<Rightarrow> bool" where
  "falsy Undefined = True"
| "falsy Null = True"
| "falsy (Str s) = (s = [])"
| "falsy (DateV t) = False"

fun validate :: "validatorjs \<Rightarrow> validator \<Rightarrow> string \<Rightarrow> bool" where
  "validate L (IsLength n) s = isLength L n s"
| "validate L IsAlphanumeric s = isAlphanumeric L s"
| "validate L IsISO8601 s = isISO8601 L s"

fun sanitize :: "validatorjs \<Rightarrow> sanitizer \<Rightarrow> string \<Rightarrow> jsval" where
  "sanitize L Trim s = Str (trim L s)"
| "sanitize L Escape s = Str (escape L s)"
| "sanitize L ToDate s = (case Date_parse L s of None \<Rightarrow> Null | Some t \<Rightarrow> DateV t)"

text \<open>The message of an error: the validator's, else the chain's, else the default.\<close>

definition error_message :: "string option \<Rightarrow> string option \<Rightarrow> string" where
  "error_message m cm =
     (case m of
        Some (x # xs) \<Rightarrow> x # xs
      | other \<Rightarrow> (case cm of Some (y # ys) \<Rightarrow> y # ys | other' \<Rightarrow> ''Invalid value''))"

text \<open>
  Running a chain on the request: the items run in order on the field's current value; an
  optional chain skips an item while the value is falsy; a failing validator adds an error
  and the chain goes on; a sanitizer writes its result back into the body.
\<close>

fun run_item ::
  "validatorjs \<Rightarrow> chain \<Rightarrow> (string \<Rightarrow> jsval) \<times> verror list \<Rightarrow> item \<Rightarrow>
   (string \<Rightarrow> jsval) \<times> verror list" where
  "run_item L c (b, errs) (Sanitization s) =
     (if c_optional c \<and> falsy (b (c_field c)) then (b, errs)
      else (b(c_field c := sanitize L s (toString L (b (c_field c)))), errs))"
| "run_item L c (b, errs) (StandardValidation v m) =
     (if c_optional c \<and> falsy (b (c_field c)) then (b, errs)
      else if validate L v (toString L (b (c_field c))) then (b, errs)
      else (b, errs @ [\<lparr>path = c_field c, msg = error_message m (c_message c),
                         rejected = b (c_field c)\<rparr>]))"

definition run_chain ::
  "validatorjs \<Rightarrow> chain \<Rightarrow> (string \<Rightarrow> jsval) \<times> verror list \<Rightarrow>
   (string \<Rightarrow> jsval) \<times> verror list" where
  "run_chain L c st = foldl (run_item L c) st (c_stack c)"

definition run_chains ::
  "validatorjs \<Rightarrow> chain list \<Rightarrow> (string \<Rightarrow> jsval) \<Rightarrow> (string \<Rightarrow> jsval) \<times> verror list" where
  "run_chains L cs b = foldl (\<lambda>st c. run_chain L c st) (b, []) cs"

text \<open>
  Notation for what the chains leave in a field: a text field trimmed and then escaped, and
  an optional date field, left as it is when falsy and otherwise replaced by the date
  \<^verbatim>\<open>Date.parse\<close> reads from it, or by \<^verbatim>\<open>null\<close> when it reads none.
\<close>

abbreviation trimmed_escaped :: "validatorjs \<Rightarrow> jsval \<Rightarrow> jsval" where
  "trimmed_escaped L v \<equiv> Str (escape L (trim L (toString L v)))"

abbreviation coerced_date :: "validatorjs \<Rightarrow> jsval \<Rightarrow> jsval" where
  "coerced_date L v \<equiv>
     (if falsy v then v
      else (case Date_parse L (toString L v) of None \<Rightarrow> Null | Some t \<Rightarrow> DateV t))"

definition failing :: "verror list \<Rightarrow> string \<Rightarrow> bool" where
  "failing errs f = list_ex (\<lambda>e. path e = f) errs"

section \<open>The author controller: create, delete, update\<close>

definition author_create_validators :: "chain list" where
  "author_create_validators =
     [body_chain ''first_name'' None
        [S Trim, V (IsLength 1), S Escape, WithMessage ''First name must be specified.'',
         V IsAlphanumeric, WithMessage ''First name has non-alphanumeric characters.''],
      body_chain ''family_name'' None
        [S Trim, V (IsLength 1), S Escape, WithMessage ''Family name must be specified.'',
         V IsAlphanumeric, WithMessage ''Family name has non-alphanumeric characters.''],
      body_chain ''date_of_birth'' (Some ''Invalid date of birth'')
        [OptionalFalsy, V IsISO8601, S ToDate],
      body_chain ''date_of_death'' (Some ''Invalid date of death'')
        [OptionalFalsy, V IsISO8601, S ToDate]]"

text \<open>
  \<open>new_id\<close> is the identifier \<^verbatim>\<open>new Author(...)\<close> generates for the document. A failing
  \<^verbatim>\<open>save\<close> rejects the handler's promise, which \<^verbatim>\<open>asyncHandler\<close> hands to \<^verbatim>\<open>next\<close>.
\<close>

definition author_create_post ::
  "validatorjs \<Rightarrow> store \<Rightarrow> oid \<Rightarrow> request \<Rightarrow> store \<times> action list" where
  "author_create_post L st new_id req =
     (case run_chains L author_create_validators (body req) of
        (b, errors) \<Rightarrow>
          let author = \<lparr>author_id = new_id,
                        first_name = b ''first_name'',
                        family_name = b ''family_name'',
                        date_of_birth = b ''date_of_birth'',
                        date_of_death = b ''date_of_death''\<rparr> in
          if errors \<noteq> [] then
            (st, [Render ''index''
                    [(''title'', LStr ''Create Author''),
                     (''author'', LAuthor (Some author)),
                     (''errors'', LErrors errors),
                     (''route'', LStr ''author_form.ejs'')]])
          else
            (case save author_id author (authors st) of
               Inl e \<Rightarrow> (st, [Next e])
             | Inr as \<Rightarrow> (st\<lparr>authors := as\<rparr>, [Redirect (author_url (author_id author))])))"

definition author_delete_get :: "store \<Rightarrow> request \<Rightarrow> action list" where
  "author_delete_get st req =
     (let author = findById author_id (authors st) (params_id req);
          allBooksByAuthor = books_by_author st (params_id req) in
      (if author = None then
         [Debug (''id not found on delete: '' @ params_id req),
          Redirect (Path ''/catalog/authors'')]
       else []) @
      [Render ''index''
         [(''title'', LStr ''Delete Author''),
          (''author'', LAuthor author),
          (''author_books'', LBookSummaries allBooksByAuthor),
          (''route'', LStr ''author_delete.ejs'')]])"

definition author_delete_post :: "store \<Rightarrow> request \<Rightarrow> store \<times> action list" where
  "author_delete_post st req =
     (let author = findById author_id (authors st) (params_id req);
          allBooksByAuthor = books_by_author st (params_id req) in
      if length allBooksByAuthor > 0 then
        (st, [Render ''index''
                [(''title'', LStr ''Delete Author''),
                 (''author'', LAuthor author),
                 (''author_books'', LBookSummaries allBooksByAuthor),
                 (''route'', LStr ''author_delete.ejs'')]])
      else
        (st\<lparr>authors := findByIdAndRemove author_id (authors st) (body req ''authorid'')\<rparr>,
         [Redirect (Path ''/catalog/authors'')]))"

definition author_update_get :: "store \<Rightarrow> request \<Rightarrow> action list" where
  "author_update_get st req =
     (let author = findById author_id (authors st) (params_id req) in
      if author = None then
        [Debug (''id not found on update: '' @ params_id req),
         Next (Error ''author not found'' (Some 404))]
      else
        [Render ''index''
           [(''title'', LStr ''Update Author''),
            (''author'', LAuthor author),
            (''route'', LStr ''author_form.ejs'')]])"

definition author_update_validators :: "chain list" where
  "author_update_validators =
     [body_chain ''first_name'' (Some ''First Name must not be empty.'')
        [S Trim, V (IsLength 1), S Escape],
      body_chain ''family_name'' (Some ''Family Name must not be empty'')
        [S Trim, V (IsLength 1), S Escape],
      body_chain ''date_of_birth'' None [S Trim, S Escape],
      body_chain ''date_of_death'' None [S Trim, S Escape]]"

text \<open>
  The update a document is turned into sets every field the document has; a field that is
  \<^verbatim>\<open>undefined\<close> in it is left as it was.
\<close>

definition set_field :: "jsval \<Rightarrow> jsval \<Rightarrow> jsval" where
  "set_field new old = (if new = Undefined then old else new)"

definition author_set :: "author_doc \<Rightarrow> author_doc \<Rightarrow> author_doc" where
  "author_set new old =
     \<lparr>author_id = author_id new,
      first_name = set_field (first_name new) (first_name old),
      family_name = set_field (family_name new) (family_name old),
      date_of_birth = set_field (date_of_birth new) (date_of_birth old),
      date_of_death = set_field (date_of_death new) (date_of_death old)\<rparr>"

text \<open>
  \<^verbatim>\<open>findByIdAndUpdate\<close> yields \<^verbatim>\<open>null\<close> for an identifier that does not resolve; reading
  \<^verbatim>\<open>url\<close> of it throws a TypeError, which \<^verbatim>\<open>asyncHandler\<close> hands to \<^verbatim>\<open>next\<close>.
\<close>

definition author_update_post ::
  "validatorjs \<Rightarrow> store \<Rightarrow> request \<Rightarrow> store \<times> action list" where
  "author_update_post L st req =
     (case run_chains L author_update_validators (body req) of
        (b, errors) \<Rightarrow>
          let author = \<lparr>author_id = params_id req,
                        first_name = b ''first_name'',
                        family_name = b ''family_name'',
                        date_of_birth = b ''date_of_birth'',
                        date_of_death = b ''date_of_death''\<rparr> in
          if errors \<noteq> [] then
            (st, [Render ''index''
                    [(''title'', LStr ''Update Author''),
                     (''author'', LAuthor (Some author)),
                     (''errors'', LErrors errors),
                     (''route'', LStr ''author_form.ejs'')]])
          else
            (case findByIdAndUpdate author_id (authors st) (params_id req) (author_set author) of
               (None, as) \<Rightarrow>
                 (st\<lparr>authors := as\<rparr>,
                  [Next (TypeError ''Cannot read properties of null (reading url)'')])
             | (Some updatedAuthor, as) \<Rightarrow>
                 (st\<lparr>authors := as\<rparr>, [Redirect (author_url (author_id updatedAuthor))])))"

section \<open>The book instance controller: create, delete, update\<close>

definition bookinstance_create_validators :: "chain list" where
  "bookinstance_create_validators =
     [body_chain ''book'' (Some ''Book must be specified'') [S Trim, V (IsLength 1), S Escape],
      body_chain ''imprint'' (Some ''Imprint must be specified'')
        [S Trim, V (IsLength 1), S Escape],
      body_chain ''status'' None [S Escape],
      body_chain ''due_back'' (Some ''Invalid date'') [OptionalFalsy, V IsISO8601, S ToDate]]"

text \<open>
  On errors the handler evaluates \<^verbatim>\<open>"title".exec()\<close> as the argument of \<^verbatim>\<open>Book.find\<close>: a
  string has no method \<^verbatim>\<open>exec\<close>, so a TypeError is thrown before anything is rendered, and
  \<^verbatim>\<open>asyncHandler\<close> hands it to \<^verbatim>\<open>next\<close>.
\<close>

definition bookinstance_create_post ::
  "validatorjs \<Rightarrow> store \<Rightarrow> oid \<Rightarrow> request \<Rightarrow> store \<times> action list" where
  "bookinstance_create_post L st new_id req =
     (case run_chains L bookinstance_create_validators (body req) of
        (b, errors) \<Rightarrow>
          let bookInstance = \<lparr>bookinstance_id = new_id,
                              book = b ''book'',
                              imprint = b ''imprint'',
                              status = b ''status'',
                              due_back = b ''due_back''\<rparr> in
          if errors \<noteq> [] then
            (st, [Next (TypeError ''title.exec is not a function'')])
          else
            (case save bookinstance_id bookInstance (bookinstances st) of
               Inl e \<Rightarrow> (st, [Next e])
             | Inr bs \<Rightarrow>
                 (st\<lparr>bookinstances := bs\<rparr>,
                  [Redirect (bookinstance_url (bookinstance_id bookInstance))])))"

definition bookinstance_delete_get :: "store \<Rightarrow> request \<Rightarrow> action list" where
  "bookinstance_delete_get st req =
     (let bookInstance =
            map_option (populate_book st)
              (findById bookinstance_id (bookinstances st) (params_id req)) in
      (if bookInstance = None then
         [Debug (''id not found on delete: '' @ params_id req),
          Redirect (Path ''/catalog/bookinstances'')]
       else []) @
      [Render ''index''
         [(''title'', LStr ''Delete Book Instance''),
          (''book_instance'', LPopulatedInstance bookInstance),
          (''route'', LStr ''bookinstance_delete.ejs'')]])"


definition bookinstance_update_get :: "store \<Rightarrow> request \<Rightarrow> action list" where
  "bookinstance_update_get st req =
     (let bookInstance = findById bookinstance_id (bookinstances st) (params_id req);
          allBooks = books st in
      if bookInstance = None then
        [Debug (''id not found on update: '' @ params_id req),
         Next (Error ''book instance not found'' (Some 404))]
      else
        [Render ''index''
           [(''title'', LStr ''Update Book Instance''),
            (''bookinstance'', LBookInstance bookInstance),
            (''book_list'', LBooks allBooks),
            (''route'', LStr ''bookinstance_form.ejs'')]])"

definition bookinstance_update_validators :: "chain list" where
  "bookinstance_update_validators =
     [body_chain ''book'' (Some ''Book must not be empty.'') [S Trim, V (IsLength 1), S Escape],
      body_chain ''imprint'' (Some ''Imprint must not be empty'')
        [S Trim, V (IsLength 1), S Escape],
      body_chain ''due_back'' (Some ''Date must not be empty.'')
        [S Trim, V (IsLength 1), S Escape],
      body_chain ''status'' (Some ''Status must not be empty'')
        [S Trim, V (IsLength 1), S Escape]]"

definition bookinstance_set :: "bookinstance_doc \<Rightarrow> bookinstance_doc \<Rightarrow> bookinstance_doc" where
  "bookinstance_set new old =
     \<lparr>bookinstance_id = bookinstance_id new,
      book = set_field (book new) (book old),
      imprint = set_field (imprint new) (imprint old),
      status = set_field (status new) (status old),
      due_back = set_field (due_back new) (due_back old)\<rparr>"

definition bookinstance_update_post ::
  "validatorjs \<Rightarrow> store \<Rightarrow> request \<Rightarrow> store \<times> action list" where
  "bookinstance_update_post L st req =
     (case run_chains L bookinstance_update_validators (body req) of
        (b, errors) \<Rightarrow>
          let bookInstance = \<lparr>bookinstance_id = params_id req,
                              book = b ''book'',
                              imprint = b ''imprint'',
                              status = b ''status'',
                              due_back = b ''due_back''\<rparr> in
          if errors \<noteq> [] then
            (st, [Render ''index''
                    [(''title'', LStr ''Update Book Instance''),
                     (''book_list'', LBooks (books st)),
                     (''errors'', LErrors errors),
                     (''route'', LStr ''bookinstance_update.ejs'')]])
          else
            (case findByIdAndUpdate bookinstance_id (bookinstances st) (params_id req)
                    (bookinstance_set bookInstance) of
               (None, bs) \<Rightarrow>
                 (st\<lparr>bookinstances := bs\<rparr>,
                  [Next (TypeError ''Cannot read properties of null (reading url)'')])
             | (Some updatedBookInstance, bs) \<Rightarrow>
                 (st\<lparr>bookinstances := bs\<rparr>,
                  [Redirect (bookinstance_url (bookinstance_id updatedBookInstance))])))"

section \<open>An instance of the primitives, and a store, for the examples\<close>

text \<open>
  The examples below run the handlers on concrete requests, which needs the primitives to
  compute. \<open>ascii\<close> fixes them for strings of ASCII characters: \<^verbatim>\<open>trim\<close> strips white space at
  both ends, \<^verbatim>\<open>escape\<close> replaces the eight characters validator.js replaces,
  \<^verbatim>\<open>isLength({ min: n })\<close> compares the length, \<^verbatim>\<open>isAlphanumeric\<close> is the pattern
  \<^verbatim>\<open>[0-9A-Za-z]+\<close>. Of the date formats it knows the calendar date \<^verbatim>\<open>YYYY-MM-DD\<close> only, read
  as midnight UTC of that day; every other string is neither ISO 8601 nor parsed.
\<close>

definition whitespace :: "char \<Rightarrow> bool" where
  "whitespace c = (c \<in> {CHR '' '', CHR 0x09, CHR 0x0A, CHR 0x0B, CHR 0x0C, CHR 0x0D})"

definition ascii_trim :: "string \<Rightarrow> string" where
  "ascii_trim s = rev (dropWhile whitespace (rev (dropWhile whitespace s)))"

definition escape_char :: "char \<Rightarrow> string" where
  "escape_char c =
     (if c = CHR ''&'' then ''&amp;''
      else if c = CHR 0x22 then ''&quot;''
      else if c = CHR 0x27 then ''&#x27;''
      else if c = CHR ''<'' then ''&lt;''
      else if c = CHR ''>'' then ''&gt;''
      else if c = CHR ''/'' then ''&#x2F;''
      else if c = CHR 0x5C then ''&#x5C;''
      else if c = CHR 0x60 then ''&#96;''
      else [c])"

definition ascii_escape :: "string \<Rightarrow> string" where
  "ascii_escape s = concat (map escape_char s)"

definition is_digit :: "char \<Rightarrow> bool" where
  "is_digit c = (48 \<le> (of_char c :: nat) \<and> (of_char c :: nat) \<le> 57)"

definition is_letter :: "char \<Rightarrow> bool" where
  "is_letter c =
     (65 \<le> (of_char c :: nat) \<and> (of_char c :: nat) \<le> 90 \<or>
      97 \<le> (of_char c :: nat) \<and> (of_char c :: nat) \<le> 122)"

definition ascii_isAlphanumeric :: "string \<Rightarrow> bool" where
  "ascii_isAlphanumeric s = (s \<noteq> [] \<and> list_all (\<lambda>c. is_digit c \<or> is_letter c) s)"

definition digit_val :: "char \<Rightarrow> int" where
  "digit_val c = int (of_char c) - 48"

definition days_from_civil :: "int \<Rightarrow> int \<Rightarrow> int \<Rightarrow> int" where
  "days_from_civil y m d =
     (let y' = (if m \<le> 2 then y - 1 else y);
          era = y' div 400;
          yoe = y' - era * 400;
          doy = (153 * (if m > 2 then m - 3 else m + 9) + 2) div 5 + d - 1;
          doe = yoe * 365 + yoe div 4 - yoe div 100 + doy
      in era * 146097 + doe - 719468)"

definition ascii_isISO8601 :: "string \<Rightarrow> bool" where
  "ascii_isISO8601 s =
     (case s of
        [y1, y2, y3, y4, h1, m1, m2, h2, d1, d2] \<Rightarrow>
          list_all is_digit [y1, y2, y3, y4, m1, m2, d1, d2] \<and>
          h1 = CHR ''-'' \<and> h2 = CHR ''-'' \<and>
          1 \<le> 10 * digit_val m1 + digit_val m2 \<and> 10 * digit_val m1 + digit_val m2 \<le> 12 \<and>
          1 \<le> 10 * digit_val d1 + digit_val d2 \<and> 10 * digit_val d1 + digit_val d2 \<le> 31
      | other \<Rightarrow> False)"

definition ascii_Date_parse :: "string \<Rightarrow> int option" where
  "ascii_Date_parse s =
     (case s of
        [y1, y2, y3, y4, h1, m1, m2, h2, d1, d2] \<Rightarrow>
          if ascii_isISO8601 s then
            Some (86400000 *
              days_from_civil
                (1000 * digit_val y1 + 100 * digit_val y2 + 10 * digit_val y3 + digit_val y4)
                (10 * digit_val m1 + digit_val m2)
                (10 * digit_val d1 + digit_val d2))
          else None
      | other \<Rightarrow> None)"

definition digit_char :: "int \<Rightarrow> char" where
  "digit_char n = char_of (48 + nat (n mod 10))"

definition pad :: "nat \<Rightarrow> int \<Rightarrow> string" where
  "pad k n = map (\<lambda>j. digit_char (n div 10 ^ j)) (rev [0..<k])"

definition ascii_toISOString :: "int \<Rightarrow> string" where
  "ascii_toISOString t =
     (let z = t div 86400000 + 719468;
          ms = t mod 86400000;
          era = z div 146097;
          doe = z - era * 146097;
          yoe = (doe - doe div 1460 + doe div 36524 - doe div 146096) div 365;
          doy = doe - (365 * yoe + yoe div 4 - yoe div 100);
          mp = (5 * doy + 2) div 153;
          d = doy - (153 * mp + 2) div 5 + 1;
          m = (if mp < 10 then mp + 3 else mp - 9);
          y = yoe + era * 400 + (if m \<le> 2 then 1 else 0)
      in (if 0 \<le> y \<and> y \<le> 9999 then pad 4 y
          else (if y < 0 then ''-'' else ''+'') @ pad 6 (abs y)) @
         ''-'' @ pad 2 m @ ''-'' @ pad 2 d @ ''T'' @
         pad 2 (ms div 3600000) @ '':'' @ pad 2 (ms div 60000 mod 60) @ '':'' @
         pad 2 (ms div 1000 mod 60) @ ''.'' @ pad 3 (ms mod 1000) @ ''Z'')"

definition ascii :: validatorjs where
  "ascii =
     \<lparr>trim = ascii_trim,
      escape = ascii_escape,
      isLength = (\<lambda>n s. n \<le> length s),
      isAlphanumeric = ascii_isAlphanumeric,
      isISO8601 = ascii_isISO8601,
      Date_parse = ascii_Date_parse,
      toISOString = ascii_toISOString\<rparr>"

text \<open>A store of two authors, one of them with a book, and two copies of that book.\<close>

definition library :: store where
  "library =
     \<lparr>authors =
        [\<lparr>author_id = ''a1'', first_name = Str ''Jane'', family_name = Str ''Austen'',
          date_of_birth = Undefined, date_of_death = Undefined\<rparr>,
         \<lparr>author_id = ''a2'', first_name = Str ''Mary'', family_name = Str ''Shelley'',
          date_of_birth = Undefined, date_of_death = Undefined\<rparr>],
      books =
        [\<lparr>book_id = ''b1'', title = ''Emma'', author = ''a1'', summary = ''A novel'',
          isbn = ''9780141439587'', genre = [''g1'']\<rparr>],
      genres = [\<lparr>genre_id = ''g1'', genre_name = ''Fiction''\<rparr>],
      bookinstances =
        [\<lparr>bookinstance_id = ''i1'', book = Str ''b1'', imprint = Str ''Penguin 2003'',
          status = Str ''Available'', due_back = Undefined\<rparr>,
         \<lparr>bookinstance_id = ''i2'', book = Str ''b1'', imprint = Str ''Oxford 2008'',
          status = Str ''Loaned'', due_back = DateV 1767225600000\<rparr>]\<rparr>"

definition form :: "(string \<times> string) list \<Rightarrow> string \<Rightarrow> jsval" where
  "form kvs f = (case map_of kvs f of None \<Rightarrow> Undefined | Some s \<Rightarrow> Str s)"

section \<open>Facts about the store\<close>

lemma findById_key: "findById key ds i = Some d \<Longrightarrow> key d = i"
  by (induction ds) (auto simp: findById_def split: if_splits)

lemma findById_absent: "i \<notin> set (map key ds) \<Longrightarrow> findById key ds i = None"
  by (induction ds) (auto simp: findById_def)


lemma findById_remove_id_same:
  "distinct (map key ds) \<Longrightarrow> findById key (remove_id key i ds) i = None"
proof (induction ds)
  case Nil
  show ?case by (simp add: findById_def)
next
  case (Cons d ds)
  show ?case
  proof (cases "key d = i")
    case True
    with Cons.prems have "i \<notin> set (map key ds)" by auto
    with True show ?thesis by (simp add: findById_absent)
  next
    case False
    with Cons show ?thesis by (simp add: findById_def)
  qed
qed

lemma findById_update_id:
  "findById key ds i = Some d \<Longrightarrow> key (f d) = i \<Longrightarrow>
   findById key (update_id key i f ds) i = Some (f d)"
  by (induction ds) (auto simp: findById_def split: if_splits)

lemma keys_update_id:
  "(\<And>d. key d = i \<Longrightarrow> key (f d) = i) \<Longrightarrow> map key (update_id key i f ds) = map key ds"
  by (induction ds) auto

lemma findById_append_new:
  "findById key ds (key d) = None \<Longrightarrow> findById key (ds @ [d]) (key d) = Some d"
  by (induction ds) (auto simp: findById_def split: if_splits)

section \<open>What the validation chains compute\<close>

text \<open>
  Each shape of chain the controllers build, run on a body: the value it leaves in its
  field and the errors it adds.
\<close>

lemma run_chain_text:
  "run_chain L (body_chain f m [S Trim, V (IsLength n), S Escape]) (b, errs) =
     (b(f := Str (escape L (trim L (toString L (b f))))),
      errs @ (if isLength L n (trim L (toString L (b f))) then []
              else [\<lparr>path = f, msg = error_message None m,
                     rejected = Str (trim L (toString L (b f)))\<rparr>]))"
  by (simp add: run_chain_def body_chain_def)

lemma run_chain_name:
  "run_chain L
     (body_chain f m [S Trim, V (IsLength n), S Escape, WithMessage m1,
                      V IsAlphanumeric, WithMessage m2]) (b, errs) =
     (b(f := Str (escape L (trim L (toString L (b f))))),
      errs @
      (if isLength L n (trim L (toString L (b f))) then []
       else [\<lparr>path = f, msg = error_message (Some m1) m,
              rejected = Str (trim L (toString L (b f)))\<rparr>]) @
      (if isAlphanumeric L (escape L (trim L (toString L (b f)))) then []
       else [\<lparr>path = f, msg = error_message (Some m2) m,
              rejected = Str (escape L (trim L (toString L (b f))))\<rparr>]))"
  by (simp add: run_chain_def body_chain_def withMessage_def)

lemma run_chain_date:
  "run_chain L (body_chain f m [OptionalFalsy, V IsISO8601, S ToDate]) (b, errs) =
     (b(f := (if falsy (b f) then b f else sanitize L ToDate (toString L (b f)))),
      errs @ (if falsy (b f) \<or> isISO8601 L (toString L (b f)) then []
              else [\<lparr>path = f, msg = error_message None m, rejected = b f\<rparr>]))"
  by (simp add: run_chain_def body_chain_def)

lemma run_chain_escape:
  "run_chain L (body_chain f m [S Escape]) (b, errs) =
     (b(f := Str (escape L (toString L (b f)))), errs)"
  by (simp add: run_chain_def body_chain_def)

lemma run_chain_trim_escape:
  "run_chain L (body_chain f m [S Trim, S Escape]) (b, errs) =
     (b(f := Str (escape L (trim L (toString L (b f))))), errs)"
  by (simp add: run_chain_def body_chain_def)

lemma author_create_run:
  "run_chains L author_create_validators b =
     (b(''first_name'' := Str (escape L (trim L (toString L (b ''first_name'')))),
        ''family_name'' := Str (escape L (trim L (toString L (b ''family_name'')))),
        ''date_of_birth'' := (if falsy (b ''date_of_birth'') then b ''date_of_birth'' else sanitize L ToDate (toString L (b ''date_of_birth''))),
        ''date_of_death'' := (if falsy (b ''date_of_death'') then b ''date_of_death'' else sanitize L ToDate (toString L (b ''date_of_death'')))),
      (if isLength L 1 (trim L (toString L (b ''first_name''))) then []
       else [\<lparr>path = ''first_name'', msg = ''First name must be specified.'',
              rejected = Str (trim L (toString L (b ''first_name'')))\<rparr>]) @
      (if isAlphanumeric L (escape L (trim L (toString L (b ''first_name'')))) then []
       else [\<lparr>path = ''first_name'', msg = ''First name has non-alphanumeric characters.'',
              rejected = Str (escape L (trim L (toString L (b ''first_name''))))\<rparr>]) @
      (if isLength L 1 (trim L (toString L (b ''family_name''))) then []
       else [\<lparr>path = ''family_name'', msg = ''Family name must be specified.'',
              rejected = Str (trim L (toString L (b ''family_name'')))\<rparr>]) @
      (if isAlphanumeric L (escape L (trim L (toString L (b ''family_name'')))) then []
       else [\<lparr>path = ''family_name'', msg = ''Family name has non-alphanumeric characters.'',
              rejected = Str (escape L (trim L (toString L (b ''family_name''))))\<rparr>]) @
      (if falsy (b ''date_of_birth'') \<or> isISO8601 L (toString L (b ''date_of_birth'')) then []
       else [\<lparr>path = ''date_of_birth'', msg = ''Invalid date of birth'', rejected = b ''date_of_birth''\<rparr>]) @
      (if falsy (b ''date_of_death'') \<or> isISO8601 L (toString L (b ''date_of_death'')) then []
       else [\<lparr>path = ''date_of_death'', msg = ''Invalid date of death'', rejected = b ''date_of_death''\<rparr>]))"
  by (simp add: run_chains_def author_create_validators_def run_chain_text run_chain_name run_chain_date
      run_chain_escape run_chain_trim_escape error_message_def)

lemma author_update_run:
  "run_chains L author_update_validators b =
     (b(''first_name'' := Str (escape L (trim L (toString L (b ''first_name'')))),
        ''family_name'' := Str (escape L (trim L (toString L (b ''family_name'')))),
        ''date_of_birth'' := Str (escape L (trim L (toString L (b ''date_of_birth'')))),
        ''date_of_death'' := Str (escape L (trim L (toString L (b ''date_of_death''))))),
      (if isLength L 1 (trim L (toString L (b ''first_name''))) then []
       else [\<lparr>path = ''first_name'', msg = ''First Name must not be empty.'',
              rejected = Str (trim L (toString L (b ''first_name'')))\<rparr>]) @
      (if isLength L 1 (trim L (toString L (b ''family_name''))) then []
       else [\<lparr>path = ''family_name'', msg = ''Family Name must not be empty'',
              rejected = Str (trim L (toString L (b ''family_name'')))\<rparr>]))"
  by (simp add: run_chains_def author_update_validators_def run_chain_text run_chain_name run_chain_date
      run_chain_escape run_chain_trim_escape error_message_def)

lemma bookinstance_create_run:
  "run_chains L bookinstance_create_validators b =
     (b(''book'' := Str (escape L (trim L (toString L (b ''book'')))),
        ''imprint'' := Str (escape L (trim L (toString L (b ''imprint'')))),
        ''status'' := Str (escape L (toString L (b ''status''))),
        ''due_back'' := (if falsy (b ''due_back'') then b ''due_back'' else sanitize L ToDate (toString L (b ''due_back'')))),
      (if isLength L 1 (trim L (toString L (b ''book''))) then []
       else [\<lparr>path = ''book'', msg = ''Book must be specified'',
              rejected = Str (trim L (toString L (b ''book'')))\<rparr>]) @
      (if isLength L 1 (trim L (toString L (b ''imprint''))) then []
       else [\<lparr>path = ''imprint'', msg = ''Imprint must be specified'',
              rejected = Str (trim L (toString L (b ''imprint'')))\<rparr>]) @
      (if falsy (b ''due_back'') \<or> isISO8601 L (toString L (b ''due_back'')) then []
       else [\<lparr>path = ''due_back'', msg = ''Invalid date'', rejected = b ''due_back''\<rparr>]))"
  by (simp add: run_chains_def bookinstance_create_validators_def run_chain_text run_chain_name run_chain_date
      run_chain_escape run_chain_trim_escape error_message_def)

lemma bookinstance_update_run:
  "run_chains L bookinstance_update_validators b =
     (b(''book'' := Str (escape L (trim L (toString L (b ''book'')))),
        ''imprint'' := Str (escape L (trim L (toString L (b ''imprint'')))),
        ''due_back'' := Str (escape L (trim L (toString L (b ''due_back'')))),
        ''status'' := Str (escape L (trim L (toString L (b ''status''))))),
      (if isLength L 1 (trim L (toString L (b ''book''))) then []
       else [\<lparr>path = ''book'', msg = ''Book must not be empty.'',
              rejected = Str (trim L (toString L (b ''book'')))\<rparr>]) @
      (if isLength L 1 (trim L (toString L (b ''imprint''))) then []
       else [\<lparr>path = ''imprint'', msg = ''Imprint must not be empty'',
              rejected = Str (trim L (toString L (b ''imprint'')))\<rparr>]) @
      (if isLength L 1 (trim L (toString L (b ''due_back''))) then []
       else [\<lparr>path = ''due_back'', msg = ''Date must not be empty.'',
              rejected = Str (trim L (toString L (b ''due_back'')))\<rparr>]) @
      (if isLength L 1 (trim L (toString L (b ''status''))) then []
       else [\<lparr>path = ''status'', msg = ''Status must not be empty'',
              rejected = Str (trim L (toString L (b ''status'')))\<rparr>]))"
  by (simp add: run_chains_def bookinstance_update_validators_def run_chain_text run_chain_name run_chain_date
      run_chain_escape run_chain_trim_escape error_message_def)

section \<open>Facts about the handlers\<close>

lemma list_ex_if_single:
  "list_ex P (if c then [] else [e]) = (\<not> c \<and> P e)"
  by simp







lemma author_create_post_invalid:
  assumes "snd (run_chains L author_create_validators (body req)) \<noteq> []"
  shows "author_create_post L st new_id req =
     (st, [Render ''index''
             [(''title'', LStr ''Create Author''),
              (''author'', LAuthor (Some
                 \<lparr>author_id = new_id,
                  first_name = trimmed_escaped L (body req ''first_name''),
                  family_name = trimmed_escaped L (body req ''family_name''),
                  date_of_birth = coerced_date L (body req ''date_of_birth''),
                  date_of_death = coerced_date L (body req ''date_of_death'')\<rparr>)),
              (''errors'', LErrors (snd (run_chains L author_create_validators (body req)))),
              (''route'', LStr ''author_form.ejs'')]])"
proof -
  obtain b errors where r: "run_chains L author_create_validators (body req) = (b, errors)"
    by (cases "run_chains L author_create_validators (body req)")
  from r assms have e: "errors \<noteq> []" by simp
  from r have b: "b = fst (run_chains L author_create_validators (body req))" by simp
  have f: "b ''first_name'' = trimmed_escaped L (body req ''first_name'')"
    "b ''family_name'' = trimmed_escaped L (body req ''family_name'')"
    "b ''date_of_birth'' = coerced_date L (body req ''date_of_birth'')"
    "b ''date_of_death'' = coerced_date L (body req ''date_of_death'')"
    unfolding b author_create_run by simp_all
  show ?thesis
    using e by (simp add: author_create_post_def r f)
qed

lemma author_create_required:
  "\<not> isLength L 1 (trim L (toString L (b ''first_name''))) \<Longrightarrow>
     \<lparr>path = ''first_name'', msg = ''First name must be specified.'',
      rejected = Str (trim L (toString L (b ''first_name'')))\<rparr>
       \<in> set (snd (run_chains L author_create_validators b))"
  "\<not> isLength L 1 (trim L (toString L (b ''family_name''))) \<Longrightarrow>
     \<lparr>path = ''family_name'', msg = ''Family name must be specified.'',
      rejected = Str (trim L (toString L (b ''family_name'')))\<rparr>
       \<in> set (snd (run_chains L author_create_validators b))"
  by (simp_all add: author_create_run)

lemma bookinstance_create_post_invalid:
  assumes "snd (run_chains L bookinstance_create_validators (body req)) \<noteq> []"
  shows "bookinstance_create_post L st new_id req =
     (st, [Next (TypeError ''title.exec is not a function'')])"
proof -
  obtain b errors where r: "run_chains L bookinstance_create_validators (body req) = (b, errors)"
    by (cases "run_chains L bookinstance_create_validators (body req)")
  from r assms have e: "errors \<noteq> []" by simp
  show ?thesis
    using e by (simp add: bookinstance_create_post_def r)
qed

lemma bookinstance_create_required:
  "\<not> isLength L 1 (trim L (toString L (b ''imprint''))) \<Longrightarrow>
     snd (run_chains L bookinstance_create_validators b) \<noteq> []"
  by (simp add: bookinstance_create_run)

lemma author_update_post_invalid:
  assumes "snd (run_chains L author_update_validators (body req)) \<noteq> []"
  shows "author_update_post L st req =
     (st, [Render ''index''
             [(''title'', LStr ''Update Author''),
              (''author'', LAuthor (Some
                 \<lparr>author_id = params_id req,
                  first_name = trimmed_escaped L (body req ''first_name''),
                  family_name = trimmed_escaped L (body req ''family_name''),
                  date_of_birth = trimmed_escaped L (body req ''date_of_birth''),
                  date_of_death = trimmed_escaped L (body req ''date_of_death'')\<rparr>)),
              (''errors'', LErrors (snd (run_chains L author_update_validators (body req)))),
              (''route'', LStr ''author_form.ejs'')]])"
proof -
  obtain b errors where r: "run_chains L author_update_validators (body req) = (b, errors)"
    by (cases "run_chains L author_update_validators (body req)")
  from r assms have e: "errors \<noteq> []" by simp
  from r have b: "b = fst (run_chains L author_update_validators (body req))" by simp
  have f: "b ''first_name'' = trimmed_escaped L (body req ''first_name'')"
    "b ''family_name'' = trimmed_escaped L (body req ''family_name'')"
    "b ''date_of_birth'' = trimmed_escaped L (body req ''date_of_birth'')"
    "b ''date_of_death'' = trimmed_escaped L (body req ''date_of_death'')"
    unfolding b author_update_run by simp_all
  show ?thesis
    using e by (simp add: author_update_post_def r f)
qed

lemma bookinstance_update_post_invalid:
  assumes "snd (run_chains L bookinstance_update_validators (body req)) \<noteq> []"
  shows "bookinstance_update_post L st req =
     (st, [Render ''index''
             [(''title'', LStr ''Update Book Instance''),
              (''book_list'', LBooks (books st)),
              (''errors'',
               LErrors (snd (run_chains L bookinstance_update_validators (body req)))),
              (''route'', LStr ''bookinstance_update.ejs'')]])"
proof -
  obtain b errors where r: "run_chains L bookinstance_update_validators (body req) = (b, errors)"
    by (cases "run_chains L bookinstance_update_validators (body req)")
  from r assms have e: "errors \<noteq> []" by simp
  show ?thesis
    using e by (simp add: bookinstance_update_post_def r)
qed

lemma author_update_post_valid:
  assumes "snd (run_chains L author_update_validators (body req)) = []"
    and "findById author_id (authors st) (params_id req) = Some old"
  shows "author_update_post L st req =
     (st\<lparr>authors := update_id author_id (params_id req)
          (\<lambda>d. \<lparr>author_id = params_id req,
                first_name = trimmed_escaped L (body req ''first_name''),
                family_name = trimmed_escaped L (body req ''family_name''),
                date_of_birth = trimmed_escaped L (body req ''date_of_birth''),
                date_of_death = trimmed_escaped L (body req ''date_of_death'')\<rparr>)
          (authors st)\<rparr>,
      [Redirect (author_url (params_id req))])"
proof -
  obtain b errors where r: "run_chains L author_update_validators (body req) = (b, errors)"
    by (cases "run_chains L author_update_validators (body req)")
  from r assms(1) have e: "errors = []" by simp
  from r have b: "b = fst (run_chains L author_update_validators (body req))" by simp
  have f: "b ''first_name'' = trimmed_escaped L (body req ''first_name'')"
    "b ''family_name'' = trimmed_escaped L (body req ''family_name'')"
    "b ''date_of_birth'' = trimmed_escaped L (body req ''date_of_birth'')"
    "b ''date_of_death'' = trimmed_escaped L (body req ''date_of_death'')"
    unfolding b author_update_run by simp_all
  have k: "author_id old = params_id req"
    using assms(2) by (rule findById_key)
  have s: "author_set
       \<lparr>author_id = params_id req, first_name = Str x1, family_name = Str x2,
        date_of_birth = Str x3, date_of_death = Str x4\<rparr> =
     (\<lambda>d. \<lparr>author_id = params_id req, first_name = Str x1, family_name = Str x2,
           date_of_birth = Str x3, date_of_death = Str x4\<rparr>)" for x1 x2 x3 x4
    by (rule ext) (simp add: author_set_def set_field_def)
  show ?thesis
    using assms(2) k by (simp add: author_update_post_def r e f findByIdAndUpdate_def s)
qed

lemma bookinstance_update_post_valid:
  assumes "snd (run_chains L bookinstance_update_validators (body req)) = []"
    and "findById bookinstance_id (bookinstances st) (params_id req) = Some old"
  shows "bookinstance_update_post L st req =
     (st\<lparr>bookinstances := update_id bookinstance_id (params_id req)
          (\<lambda>d. \<lparr>bookinstance_id = params_id req,
                book = trimmed_escaped L (body req ''book''),
                imprint = trimmed_escaped L (body req ''imprint''),
                status = trimmed_escaped L (body req ''status''),
                due_back = trimmed_escaped L (body req ''due_back'')\<rparr>)
          (bookinstances st)\<rparr>,
      [Redirect (bookinstance_url (params_id req))])"
proof -
  obtain b errors where r: "run_chains L bookinstance_update_validators (body req) = (b, errors)"
    by (cases "run_chains L bookinstance_update_validators (body req)")
  from r assms(1) have e: "errors = []" by simp
  from r have b: "b = fst (run_chains L bookinstance_update_validators (body req))" by simp
  have f: "b ''book'' = trimmed_escaped L (body req ''book'')"
    "b ''imprint'' = trimmed_escaped L (body req ''imprint'')"
    "b ''status'' = trimmed_escaped L (body req ''status'')"
    "b ''due_back'' = trimmed_escaped L (body req ''due_back'')"
    unfolding b bookinstance_update_run by simp_all
  have k: "bookinstance_id old = params_id req"
    using assms(2) by (rule findById_key)
  have s: "bookinstance_set
       \<lparr>bookinstance_id = params_id req, book = Str x1, imprint = Str x2,
        status = Str x3, due_back = Str x4\<rparr> =
     (\<lambda>d. \<lparr>bookinstance_id = params_id req, book = Str x1, imprint = Str x2,
           status = Str x3, due_back = Str x4\<rparr>)" for x1 x2 x3 x4
    by (rule ext) (simp add: bookinstance_set_def set_field_def)
  show ?thesis
    using assms(2) k by (simp add: bookinstance_update_post_def r e f findByIdAndUpdate_def s)
qed

section \<open>Deleting an author\<close>

text \<open>
  What the handler does. When at least one book references the path identifier, the store
  is left as it is and the confirmation view is rendered again with the author found under
  the path identifier and the dependent books. When no book references it, the handler
  calls \<^verbatim>\<open>findByIdAndRemove\<close> with the form field \<^verbatim>\<open>authorid\<close> and redirects to
  \<^verbatim>\<open>/catalog/authors\<close>; the path author is gone afterwards when the form field carries the
  path identifier (and identifiers are unique).
\<close>

lemma author_delete_post_cases:
  "(books_by_author st (params_id req) \<noteq> [] \<longrightarrow>
      author_delete_post st req =
        (st, [Render ''index''
                [(''title'', LStr ''Delete Author''),
                 (''author'', LAuthor (findById author_id (authors st) (params_id req))),
                 (''author_books'', LBookSummaries (books_by_author st (params_id req))),
                 (''route'', LStr ''author_delete.ejs'')]])) \<and>
   (books_by_author st (params_id req) = [] \<longrightarrow>
      author_delete_post st req =
        (st\<lparr>authors := findByIdAndRemove author_id (authors st) (body req ''authorid'')\<rparr>,
         [Redirect (Path ''/catalog/authors'')])) \<and>
   (books_by_author st (params_id req) = [] \<and> body req ''authorid'' = Str (params_id req) \<and>
    distinct (map author_id (authors st)) \<longrightarrow>
      findById author_id (authors (fst (author_delete_post st req))) (params_id req) = None)"
proof (intro conjI impI)
  assume "books_by_author st (params_id req) \<noteq> []"
  then show "author_delete_post st req =
        (st, [Render ''index''
                [(''title'', LStr ''Delete Author''),
                 (''author'', LAuthor (findById author_id (authors st) (params_id req))),
                 (''author_books'', LBookSummaries (books_by_author st (params_id req))),
                 (''route'', LStr ''author_delete.ejs'')]])"
    by (simp add: author_delete_post_def)
next
  assume "books_by_author st (params_id req) = []"
  then show "author_delete_post st req =
        (st\<lparr>authors := findByIdAndRemove author_id (authors st) (body req ''authorid'')\<rparr>,
         [Redirect (Path ''/catalog/authors'')])"
    by (simp add: author_delete_post_def)
next
  assume a: "books_by_author st (params_id req) = [] \<and>
    body req ''authorid'' = Str (params_id req) \<and> distinct (map author_id (authors st))"
  then show "findById author_id (authors (fst (author_delete_post st req))) (params_id req) = None"
    by (simp add: author_delete_post_def findById_remove_id_same)
qed

text \<open>
  Claim C1 says that the author is removed exactly when no book references the path
  identifier, so that an author who has books is never removed. The handler makes the test
  for the path identifier and then removes the author the form field names. For the path
  identifier \<open>a2\<close>, whose author has no book, and the form field \<open>a1\<close>, whose author has a
  book, the handler answers with the redirect, author \<open>a2\<close> stays, and author \<open>a1\<close> is
  removed although a book still references that identifier.
\<close>

theorem author_delete_post_other_author:
  "books_by_author library ''a2'' = [] \<and>
   snd (author_delete_post library
      \<lparr>params_id = ''a2'', body = form [(''authorid'', ''a1'')]\<rparr>) =
     [Redirect (Path ''/catalog/authors'')] \<and>
   findById author_id
     (authors (fst (author_delete_post library
        \<lparr>params_id = ''a2'', body = form [(''authorid'', ''a1'')]\<rparr>))) ''a2'' \<noteq> None \<and>
   books_by_author library ''a1'' \<noteq> [] \<and>
   findById author_id
     (authors (fst (author_delete_post library
        \<lparr>params_id = ''a2'', body = form [(''authorid'', ''a1'')]\<rparr>))) ''a1'' = None"
  by (simp add: author_delete_post_def library_def form_def books_by_author_def findById_def)

section \<open>Detail requests for an identifier that does not resolve\<close>

text \<open>
  Claim C2. A detail request (author, book, book instance) whose path identifier does not
  resolve to a document hands \<^verbatim>\<open>next\<close> an error with status 404 and renders no view: apart
  from the debug line of the modules that log, that \<^verbatim>\<open>next\<close> is the only call the handler
  makes. For a book instance the message is "Book copy not found".
\<close>

theorem detail_not_found:
  "(findById author_id (authors st) (params_id req) = None \<longrightarrow>
      responses (author_detail st req) = [Next (Error ''Author not found'' (Some 404))] \<and>
      \<not> list_ex is_Render (author_detail st req)) \<and>
   (findById book_id (books st) (params_id req) = None \<longrightarrow>
      responses (book_detail st req) = [Next (Error ''Book not found'' (Some 404))] \<and>
      \<not> list_ex is_Render (book_detail st req)) \<and>
   (findById bookinstance_id (bookinstances st) (params_id req) = None \<longrightarrow>
      responses (bookinstance_detail st req) =
        [Next (Error ''Book copy not found'' (Some 404))] \<and>
      \<not> list_ex is_Render (bookinstance_detail st req) \<and>
      stub_bookinstance_detail st req = [Next (Error ''Book copy not found'' (Some 404))])"
  by (simp add: author_detail_def book_detail_def bookinstance_detail_def
      stub_bookinstance_detail_def responses_def)

theorem detail_not_found_witness:
  "findById author_id (authors library) ''zz'' = None \<and>
   author_detail library \<lparr>params_id = ''zz'', body = form []\<rparr> =
     [Debug ''id not found on get: zz'', Next (Error ''Author not found'' (Some 404))] \<and>
   responses (book_detail library \<lparr>params_id = ''zz'', body = form []\<rparr>) =
     [Next (Error ''Book not found'' (Some 404))] \<and>
   responses (bookinstance_detail library \<lparr>params_id = ''zz'', body = form []\<rparr>) =
     [Next (Error ''Book copy not found'' (Some 404))]"
  using detail_not_found [of library "\<lparr>params_id = ''zz'', body = form []\<rparr>"]
  by (simp add: library_def findById_def author_detail_def)

section \<open>Create submissions that fail validation\<close>

text \<open>
  Claim C3. A create submission that fails validation persists nothing. The author handler
  renders the form again, with the document built from the sanitized input and the list of
  errors, which holds an error for \<^verbatim>\<open>first_name\<close> or \<^verbatim>\<open>family_name\<close> when that field is
  empty after trimming. The book instance handler does not get that far: evaluating
  \<^verbatim>\<open>"title".exec()\<close> throws, the error goes to \<^verbatim>\<open>next\<close>, and no form is rendered.
\<close>

theorem create_post_invalid:
  "(snd (run_chains L author_create_validators (body req)) \<noteq> [] \<longrightarrow>
      author_create_post L st new_id req =
        (st, [Render ''index''
                [(''title'', LStr ''Create Author''),
                 (''author'', LAuthor (Some
                    \<lparr>author_id = new_id,
                     first_name = trimmed_escaped L (body req ''first_name''),
                     family_name = trimmed_escaped L (body req ''family_name''),
                     date_of_birth = coerced_date L (body req ''date_of_birth''),
                     date_of_death = coerced_date L (body req ''date_of_death'')\<rparr>)),
                 (''errors'',
                  LErrors (snd (run_chains L author_create_validators (body req)))),
                 (''route'', LStr ''author_form.ejs'')]])) \<and>
   (\<not> isLength L 1 (trim L (toString L (body req ''family_name''))) \<longrightarrow>
      \<lparr>path = ''family_name'', msg = ''Family name must be specified.'',
       rejected = Str (trim L (toString L (body req ''family_name'')))\<rparr>
        \<in> set (snd (run_chains L author_create_validators (body req)))) \<and>
   (\<not> isLength L 1 (trim L (toString L (body req ''first_name''))) \<longrightarrow>
      \<lparr>path = ''first_name'', msg = ''First name must be specified.'',
       rejected = Str (trim L (toString L (body req ''first_name'')))\<rparr>
        \<in> set (snd (run_chains L author_create_validators (body req)))) \<and>
   (snd (run_chains L bookinstance_create_validators (body req)) \<noteq> [] \<longrightarrow>
      bookinstance_create_post L st new_id req =
        (st, [Next (TypeError ''title.exec is not a function'')])) \<and>
   (\<not> isLength L 1 (trim L (toString L (body req ''imprint''))) \<longrightarrow>
      snd (run_chains L bookinstance_create_validators (body req)) \<noteq> [])"
  using author_create_post_invalid [of L req st new_id]
    author_create_required [of L "body req"]
    bookinstance_create_post_invalid [of L req st new_id]
    bookinstance_create_required [of L "body req"]
  by blast

theorem create_post_invalid_witness:
  "bookinstance_create_post ascii library ''i3''
     \<lparr>params_id = [],
      body = form [(''book'', ''b1''), (''imprint'', ''''), (''status'', ''Available'')]\<rparr> =
     (library, [Next (TypeError ''title.exec is not a function'')]) \<and>
   author_create_post ascii library ''a3''
     \<lparr>params_id = [], body = form [(''first_name'', ''Jane''), (''family_name'', '' '')]\<rparr> =
     (library,
      [Render ''index''
         [(''title'', LStr ''Create Author''),
          (''author'', LAuthor (Some
             \<lparr>author_id = ''a3'', first_name = Str ''Jane'', family_name = Str [],
              date_of_birth = Undefined, date_of_death = Undefined\<rparr>)),
          (''errors'', LErrors
             [\<lparr>path = ''family_name'', msg = ''Family name must be specified.'',
               rejected = Str []\<rparr>,
              \<lparr>path = ''family_name'', msg = ''Family name has non-alphanumeric characters.'',
               rejected = Str []\<rparr>]),
          (''route'', LStr ''author_form.ejs'')]])"
proof -
  have t: "ascii_trim [] = []" "ascii_trim '' '' = []" "ascii_trim ''Jane'' = ''Jane''"
    "ascii_trim ''b1'' = ''b1''" "ascii_trim ''Available'' = ''Available''"
    by (simp_all add: ascii_trim_def whitespace_def)
  have e: "ascii_escape [] = []" "ascii_escape ''Jane'' = ''Jane''"
    "ascii_escape ''b1'' = ''b1''" "ascii_escape ''Available'' = ''Available''"
    by (simp_all add: ascii_escape_def escape_char_def)
  have a: "ascii_isAlphanumeric ''Jane''" "\<not> ascii_isAlphanumeric []"
    by (simp_all add: ascii_isAlphanumeric_def is_digit_def is_letter_def)
  show ?thesis
    using create_post_invalid [of ascii
        "\<lparr>params_id = [],
          body = form [(''book'', ''b1''), (''imprint'', ''''), (''status'', ''Available'')]\<rparr>"
        library "''i3''"]
      create_post_invalid [of ascii
        "\<lparr>params_id = [], body = form [(''first_name'', ''Jane''), (''family_name'', '' '')]\<rparr>"
        library "''a3''"]
    by (simp add: author_create_run bookinstance_create_run ascii_def form_def t e a)
qed

section \<open>Create submissions that pass validation\<close>




section \<open>Updates keep the identifier\<close>

text \<open>
  Claim C5. A valid update submission for an identifier that resolves leaves, under that
  same identifier, a document carrying the submitted (sanitized) field values; the
  identifiers of the collection are the same before and after; the response redirects to
  the \<^verbatim>\<open>url\<close> of that identifier. This holds for the author and the book instance handler.
\<close>

theorem update_post_keeps_identifier:
  "(snd (run_chains L author_update_validators (body req)) = [] \<and>
    findById author_id (authors st) (params_id req) = Some old \<longrightarrow>
      findById author_id (authors (fst (author_update_post L st req))) (params_id req) =
        Some \<lparr>author_id = params_id req,
              first_name = trimmed_escaped L (body req ''first_name''),
              family_name = trimmed_escaped L (body req ''family_name''),
              date_of_birth = trimmed_escaped L (body req ''date_of_birth''),
              date_of_death = trimmed_escaped L (body req ''date_of_death'')\<rparr> \<and>
      map author_id (authors (fst (author_update_post L st req))) =
        map author_id (authors st) \<and>
      snd (author_update_post L st req) = [Redirect (author_url (params_id req))]) \<and>
   (snd (run_chains L bookinstance_update_validators (body req)) = [] \<and>
    findById bookinstance_id (bookinstances st) (params_id req) = Some old' \<longrightarrow>
      findById bookinstance_id (bookinstances (fst (bookinstance_update_post L st req)))
          (params_id req) =
        Some \<lparr>bookinstance_id = params_id req,
              book = trimmed_escaped L (body req ''book''),
              imprint = trimmed_escaped L (body req ''imprint''),
              status = trimmed_escaped L (body req ''status''),
              due_back = trimmed_escaped L (body req ''due_back'')\<rparr> \<and>
      map bookinstance_id (bookinstances (fst (bookinstance_update_post L st req))) =
        map bookinstance_id (bookinstances st) \<and>
      snd (bookinstance_update_post L st req) =
        [Redirect (bookinstance_url (params_id req))])"
proof (intro conjI impI)
  assume a: "snd (run_chains L author_update_validators (body req)) = [] \<and>
    findById author_id (authors st) (params_id req) = Some old"
  then have u: "author_update_post L st req =
     (st\<lparr>authors := update_id author_id (params_id req)
          (\<lambda>d. \<lparr>author_id = params_id req,
                first_name = trimmed_escaped L (body req ''first_name''),
                family_name = trimmed_escaped L (body req ''family_name''),
                date_of_birth = trimmed_escaped L (body req ''date_of_birth''),
                date_of_death = trimmed_escaped L (body req ''date_of_death'')\<rparr>)
          (authors st)\<rparr>,
      [Redirect (author_url (params_id req))])"
    by (simp only: author_update_post_valid)
  from a show "findById author_id (authors (fst (author_update_post L st req))) (params_id req) =
        Some \<lparr>author_id = params_id req,
              first_name = trimmed_escaped L (body req ''first_name''),
              family_name = trimmed_escaped L (body req ''family_name''),
              date_of_birth = trimmed_escaped L (body req ''date_of_birth''),
              date_of_death = trimmed_escaped L (body req ''date_of_death'')\<rparr>"
    unfolding u by (simp add: findById_update_id)
  show "map author_id (authors (fst (author_update_post L st req))) = map author_id (authors st)"
    unfolding u by (simp add: keys_update_id)
  show "snd (author_update_post L st req) = [Redirect (author_url (params_id req))]"
    unfolding u by simp
next
  assume a: "snd (run_chains L bookinstance_update_validators (body req)) = [] \<and>
    findById bookinstance_id (bookinstances st) (params_id req) = Some old'"
  then have u: "bookinstance_update_post L st req =
     (st\<lparr>bookinstances := update_id bookinstance_id (params_id req)
          (\<lambda>d. \<lparr>bookinstance_id = params_id req,
                book = trimmed_escaped L (body req ''book''),
                imprint = trimmed_escaped L (body req ''imprint''),
                status = trimmed_escaped L (body req ''status''),
                due_back = trimmed_escaped L (body req ''due_back'')\<rparr>)
          (bookinstances st)\<rparr>,
      [Redirect (bookinstance_url (params_id req))])"
    by (simp only: bookinstance_update_post_valid)
  from a show "findById bookinstance_id (bookinstances (fst (bookinstance_update_post L st req)))
          (params_id req) =
        Some \<lparr>bookinstance_id = params_id req,
              book = trimmed_escaped L (body req ''book''),
              imprint = trimmed_escaped L (body req ''imprint''),
              status = trimmed_escaped L (body req ''status''),
              due_back = trimmed_escaped L (body req ''due_back'')\<rparr>"
    unfolding u by (simp add: findById_update_id)
  show "map bookinstance_id (bookinstances (fst (bookinstance_update_post L st req))) =
        map bookinstance_id (bookinstances st)"
    unfolding u by (simp add: keys_update_id)
  show "snd (bookinstance_update_post L st req) = [Redirect (bookinstance_url (params_id req))]"
    unfolding u by simp
qed

theorem update_post_keeps_identifier_witness:
  "author_update_post ascii library
     \<lparr>params_id = ''a2'',
      body = form [(''first_name'', ''Mary''), (''family_name'', ''Godwin'')]\<rparr> =
     (library\<lparr>authors :=
        [\<lparr>author_id = ''a1'', first_name = Str ''Jane'', family_name = Str ''Austen'',
          date_of_birth = Undefined, date_of_death = Undefined\<rparr>,
         \<lparr>author_id = ''a2'', first_name = Str ''Mary'', family_name = Str ''Godwin'',
          date_of_birth = Str [], date_of_death = Str []\<rparr>]\<rparr>,
      [Redirect (author_url ''a2'')]) \<and>
   findById bookinstance_id
     (bookinstances (fst (bookinstance_update_post ascii library
        \<lparr>params_id = ''i1'',
         body = form [(''book'', ''b1''), (''imprint'', ''Folio''), (''status'', ''Loaned''),
                      (''due_back'', ''2026-01-01'')]\<rparr>))) ''i1'' =
     Some \<lparr>bookinstance_id = ''i1'', book = Str ''b1'', imprint = Str ''Folio'',
           status = Str ''Loaned'', due_back = Str ''2026-01-01''\<rparr>"
proof -
  have t: "ascii_trim [] = []" "ascii_trim ''Mary'' = ''Mary''"
    "ascii_trim ''Godwin'' = ''Godwin''" "ascii_trim ''b1'' = ''b1''"
    "ascii_trim ''Folio'' = ''Folio''" "ascii_trim ''Loaned'' = ''Loaned''"
    "ascii_trim ''2026-01-01'' = ''2026-01-01''"
    by (simp_all add: ascii_trim_def whitespace_def)
  have e: "ascii_escape [] = []" "ascii_escape ''Mary'' = ''Mary''"
    "ascii_escape ''Godwin'' = ''Godwin''" "ascii_escape ''b1'' = ''b1''"
    "ascii_escape ''Folio'' = ''Folio''" "ascii_escape ''Loaned'' = ''Loaned''"
    "ascii_escape ''2026-01-01'' = ''2026-01-01''"
    by (simp_all add: ascii_escape_def escape_char_def)
  have v: "snd (run_chains ascii author_update_validators
        (form [(''first_name'', ''Mary''), (''family_name'', ''Godwin'')])) = []"
    "snd (run_chains ascii bookinstance_update_validators
        (form [(''book'', ''b1''), (''imprint'', ''Folio''), (''status'', ''Loaned''),
               (''due_back'', ''2026-01-01'')])) = []"
    by (simp_all add: author_update_run bookinstance_update_run ascii_def form_def t)
  have f: "findById author_id (authors library) ''a2'' =
      Some \<lparr>author_id = ''a2'', first_name = Str ''Mary'', family_name = Str ''Shelley'',
            date_of_birth = Undefined, date_of_death = Undefined\<rparr>"
    "findById bookinstance_id (bookinstances library) ''i1'' =
      Some \<lparr>bookinstance_id = ''i1'', book = Str ''b1'', imprint = Str ''Penguin 2003'',
            status = Str ''Available'', due_back = Undefined\<rparr>"
    by (simp_all add: library_def findById_def)
  have a: "author_update_post ascii library
     \<lparr>params_id = ''a2'',
      body = form [(''first_name'', ''Mary''), (''family_name'', ''Godwin'')]\<rparr> =
     (library\<lparr>authors :=
        [\<lparr>author_id = ''a1'', first_name = Str ''Jane'', family_name = Str ''Austen'',
          date_of_birth = Undefined, date_of_death = Undefined\<rparr>,
         \<lparr>author_id = ''a2'', first_name = Str ''Mary'', family_name = Str ''Godwin'',
          date_of_birth = Str [], date_of_death = Str []\<rparr>]\<rparr>,
      [Redirect (author_url ''a2'')])"
    using v(1) f(1)
    by (simp add: author_update_post_valid ascii_def form_def t e) (simp add: library_def)
  show ?thesis
    using update_post_keeps_identifier [of ascii
        "\<lparr>params_id = ''i1'',
          body = form [(''book'', ''b1''), (''imprint'', ''Folio''), (''status'', ''Loaned''),
                       (''due_back'', ''2026-01-01'')]\<rparr>"
        library _ _] v(2) f(2) a
    by (simp add: ascii_def form_def t e)
qed

section \<open>The update chains against the create chains\<close>

text \<open>
  Claim C6, as amended. On the fields \<^verbatim>\<open>book\<close>, \<^verbatim>\<open>imprint\<close>, \<^verbatim>\<open>first_name\<close> and \<^verbatim>\<open>family_name\<close>
  the update chains leave the value the create chains leave (trimmed, then escaped). A book
  instance update has an error on \<^verbatim>\<open>book\<close> or \<^verbatim>\<open>imprint\<close> exactly when a create has one. An
  author update has an error on a name exactly when the name is empty after trimming; a
  create has one also when the name is not alphanumeric. On the other fields the chains
  differ: an update has an error on \<^verbatim>\<open>due_back\<close> or \<^verbatim>\<open>status\<close> exactly when the field is empty
  after trimming, and it leaves \<^verbatim>\<open>due_back\<close>, \<^verbatim>\<open>date_of_birth\<close> and \<^verbatim>\<open>date_of_death\<close> trimmed
  and escaped, with no error on the two dates of an author whatever they hold.
\<close>

theorem update_chains_on_required_text:
  "fst (run_chains L bookinstance_update_validators b) ''book'' =
     fst (run_chains L bookinstance_create_validators b) ''book'' \<and>
   fst (run_chains L bookinstance_update_validators b) ''imprint'' =
     fst (run_chains L bookinstance_create_validators b) ''imprint'' \<and>
   fst (run_chains L author_update_validators b) ''first_name'' =
     fst (run_chains L author_create_validators b) ''first_name'' \<and>
   fst (run_chains L author_update_validators b) ''family_name'' =
     fst (run_chains L author_create_validators b) ''family_name'' \<and>
   failing (snd (run_chains L bookinstance_update_validators b)) ''book'' =
     failing (snd (run_chains L bookinstance_create_validators b)) ''book'' \<and>
   failing (snd (run_chains L bookinstance_update_validators b)) ''imprint'' =
     failing (snd (run_chains L bookinstance_create_validators b)) ''imprint'' \<and>
   failing (snd (run_chains L author_update_validators b)) ''first_name'' =
     (\<not> isLength L 1 (trim L (toString L (b ''first_name'')))) \<and>
   failing (snd (run_chains L author_update_validators b)) ''family_name'' =
     (\<not> isLength L 1 (trim L (toString L (b ''family_name'')))) \<and>
   failing (snd (run_chains L author_create_validators b)) ''first_name'' =
     (\<not> isLength L 1 (trim L (toString L (b ''first_name''))) \<or>
      \<not> isAlphanumeric L (escape L (trim L (toString L (b ''first_name''))))) \<and>
   failing (snd (run_chains L author_create_validators b)) ''family_name'' =
     (\<not> isLength L 1 (trim L (toString L (b ''family_name''))) \<or>
      \<not> isAlphanumeric L (escape L (trim L (toString L (b ''family_name''))))) \<and>
   failing (snd (run_chains L bookinstance_update_validators b)) ''due_back'' =
     (\<not> isLength L 1 (trim L (toString L (b ''due_back'')))) \<and>
   failing (snd (run_chains L bookinstance_update_validators b)) ''status'' =
     (\<not> isLength L 1 (trim L (toString L (b ''status'')))) \<and>
   fst (run_chains L bookinstance_update_validators b) ''due_back'' =
     trimmed_escaped L (b ''due_back'') \<and>
   fst (run_chains L author_update_validators b) ''date_of_birth'' =
     trimmed_escaped L (b ''date_of_birth'') \<and>
   fst (run_chains L author_update_validators b) ''date_of_death'' =
     trimmed_escaped L (b ''date_of_death'') \<and>
   \<not> failing (snd (run_chains L author_update_validators b)) ''date_of_birth'' \<and>
   \<not> failing (snd (run_chains L author_update_validators b)) ''date_of_death''"
proof (intro conjI)
  show "fst (run_chains L bookinstance_update_validators b) ''book'' =
     fst (run_chains L bookinstance_create_validators b) ''book''"
    by (simp add: bookinstance_update_run bookinstance_create_run)
  show "fst (run_chains L bookinstance_update_validators b) ''imprint'' =
     fst (run_chains L bookinstance_create_validators b) ''imprint''"
    by (simp add: bookinstance_update_run bookinstance_create_run)
  show "fst (run_chains L author_update_validators b) ''first_name'' =
     fst (run_chains L author_create_validators b) ''first_name''"
    by (simp add: author_update_run author_create_run)
  show "fst (run_chains L author_update_validators b) ''family_name'' =
     fst (run_chains L author_create_validators b) ''family_name''"
    by (simp add: author_update_run author_create_run)
  show "failing (snd (run_chains L bookinstance_update_validators b)) ''book'' =
     failing (snd (run_chains L bookinstance_create_validators b)) ''book''"
    by (simp add: bookinstance_update_run bookinstance_create_run failing_def
        list_ex_if_single)
  show "failing (snd (run_chains L bookinstance_update_validators b)) ''imprint'' =
     failing (snd (run_chains L bookinstance_create_validators b)) ''imprint''"
    by (simp add: bookinstance_update_run bookinstance_create_run failing_def
        list_ex_if_single)
  show "failing (snd (run_chains L author_update_validators b)) ''first_name'' =
     (\<not> isLength L 1 (trim L (toString L (b ''first_name''))))"
    by (simp add: author_update_run failing_def list_ex_if_single)
  show "failing (snd (run_chains L author_update_validators b)) ''family_name'' =
     (\<not> isLength L 1 (trim L (toString L (b ''family_name''))))"
    by (simp add: author_update_run failing_def list_ex_if_single)
  show "failing (snd (run_chains L author_create_validators b)) ''first_name'' =
     (\<not> isLength L 1 (trim L (toString L (b ''first_name''))) \<or>
      \<not> isAlphanumeric L (escape L (trim L (toString L (b ''first_name'')))))"
    by (simp add: author_create_run failing_def list_ex_if_single)
  show "failing (snd (run_chains L author_create_validators b)) ''family_name'' =
     (\<not> isLength L 1 (trim L (toString L (b ''family_name''))) \<or>
      \<not> isAlphanumeric L (escape L (trim L (toString L (b ''family_name'')))))"
    by (simp add: author_create_run failing_def list_ex_if_single)
  show "failing (snd (run_chains L bookinstance_update_validators b)) ''due_back'' =
     (\<not> isLength L 1 (trim L (toString L (b ''due_back''))))"
    by (simp add: bookinstance_update_run failing_def list_ex_if_single)
  show "failing (snd (run_chains L bookinstance_update_validators b)) ''status'' =
     (\<not> isLength L 1 (trim L (toString L (b ''status''))))"
    by (simp add: bookinstance_update_run failing_def list_ex_if_single)
  show "fst (run_chains L bookinstance_update_validators b) ''due_back'' =
     trimmed_escaped L (b ''due_back'')"
    by (simp add: bookinstance_update_run)
  show "fst (run_chains L author_update_validators b) ''date_of_birth'' =
     trimmed_escaped L (b ''date_of_birth'')"
    by (simp add: author_update_run)
  show "fst (run_chains L author_update_validators b) ''date_of_death'' =
     trimmed_escaped L (b ''date_of_death'')"
    by (simp add: author_update_run)
  show "\<not> failing (snd (run_chains L author_update_validators b)) ''date_of_birth''"
    by (simp add: author_update_run failing_def list_ex_if_single)
  show "\<not> failing (snd (run_chains L author_update_validators b)) ''date_of_death''"
    by (simp add: author_update_run failing_def list_ex_if_single)
qed

theorem update_chains_on_required_text_witness:
  "fst (run_chains ascii bookinstance_update_validators
          (form [(''book'', '' b1 ''), (''imprint'', ''<i>'')])) ''book'' = Str ''b1'' \<and>
   fst (run_chains ascii bookinstance_create_validators
          (form [(''book'', '' b1 ''), (''imprint'', ''<i>'')])) ''book'' = Str ''b1'' \<and>
   failing (snd (run_chains ascii author_create_validators
          (form [(''first_name'', ''J.K.''), (''family_name'', ''Rowling'')]))) ''first_name'' \<and>
   \<not> failing (snd (run_chains ascii author_update_validators
          (form [(''first_name'', ''J.K.''), (''family_name'', ''Rowling'')]))) ''first_name''"
proof -
  have t: "ascii_trim '' b1 '' = ''b1''" "ascii_trim ''J.K.'' = ''J.K.''"
    by (simp_all add: ascii_trim_def whitespace_def)
  have e: "ascii_escape ''b1'' = ''b1''" "ascii_escape ''J.K.'' = ''J.K.''"
    by (simp_all add: ascii_escape_def escape_char_def)
  have a: "\<not> ascii_isAlphanumeric ''J.K.''"
    by (simp add: ascii_isAlphanumeric_def is_digit_def is_letter_def)
  show ?thesis
    using update_chains_on_required_text [of ascii "form [(''book'', '' b1 ''), (''imprint'', ''<i>'')]"]
      update_chains_on_required_text
        [of ascii "form [(''first_name'', ''J.K.''), (''family_name'', ''Rowling'')]"]
    by (simp add: bookinstance_create_run ascii_def form_def t e a)
qed

text \<open>
  The claim as stated fails: a book instance with an empty due date passes the create chains
  and fails the update chains; an author whose date of birth is not a date fails the create
  chains and passes the update chains, which keep the string.
\<close>

theorem update_chains_differ_from_create:
  "snd (run_chains ascii bookinstance_create_validators
          (form [(''book'', ''b1''), (''imprint'', ''Folio''), (''status'', ''Loaned''),
                 (''due_back'', '''')])) = [] \<and>
   snd (run_chains ascii bookinstance_update_validators
          (form [(''book'', ''b1''), (''imprint'', ''Folio''), (''status'', ''Loaned''),
                 (''due_back'', '''')])) =
     [\<lparr>path = ''due_back'', msg = ''Date must not be empty.'', rejected = Str []\<rparr>] \<and>
   snd (run_chains ascii author_create_validators
          (form [(''first_name'', ''Jane''), (''family_name'', ''Austen''),
                 (''date_of_birth'', ''soon'')])) =
     [\<lparr>path = ''date_of_birth'', msg = ''Invalid date of birth'', rejected = Str ''soon''\<rparr>] \<and>
   snd (run_chains ascii author_update_validators
          (form [(''first_name'', ''Jane''), (''family_name'', ''Austen''),
                 (''date_of_birth'', ''soon'')])) = [] \<and>
   fst (run_chains ascii author_update_validators
          (form [(''first_name'', ''Jane''), (''family_name'', ''Austen''),
                 (''date_of_birth'', ''soon'')])) ''date_of_birth'' = Str ''soon''"
proof -
  have t: "ascii_trim [] = []" "ascii_trim ''b1'' = ''b1''" "ascii_trim ''Folio'' = ''Folio''"
    "ascii_trim ''Loaned'' = ''Loaned''" "ascii_trim ''Jane'' = ''Jane''"
    "ascii_trim ''Austen'' = ''Austen''" "ascii_trim ''soon'' = ''soon''"
    by (simp_all add: ascii_trim_def whitespace_def)
  have e: "ascii_escape ''Jane'' = ''Jane''" "ascii_escape ''Austen'' = ''Austen''"
    "ascii_escape ''soon'' = ''soon''"
    by (simp_all add: ascii_escape_def escape_char_def)
  have a: "ascii_isAlphanumeric ''Jane''" "ascii_isAlphanumeric ''Austen''"
    by (simp_all add: ascii_isAlphanumeric_def is_digit_def is_letter_def)
  have d: "\<not> ascii_isISO8601 ''soon''"
    by (simp add: ascii_isISO8601_def)
  show ?thesis
    by (simp add: bookinstance_create_run bookinstance_update_run author_create_run
        author_update_run ascii_def form_def t e a d)
qed

section \<open>Delete requests (GET) for an identifier that does not resolve\<close>

text \<open>
  Claim C7 says that such a request is answered by a redirect to the list and nothing else.
  The handlers call \<^verbatim>\<open>res.redirect\<close> and, as the branch does not return, go on to call
  \<^verbatim>\<open>res.render\<close> for the confirmation view with \<^verbatim>\<open>null\<close> in place of the document.
\<close>

theorem delete_get_not_found_falls_through:
  "(findById author_id (authors st) (params_id req) = None \<longrightarrow>
      author_delete_get st req =
        [Debug (''id not found on delete: '' @ params_id req),
         Redirect (Path ''/catalog/authors''),
         Render ''index''
           [(''title'', LStr ''Delete Author''),
            (''author'', LAuthor None),
            (''author_books'', LBookSummaries (books_by_author st (params_id req))),
            (''route'', LStr ''author_delete.ejs'')]]) \<and>
   (findById bookinstance_id (bookinstances st) (params_id req) = None \<longrightarrow>
      bookinstance_delete_get st req =
        [Debug (''id not found on delete: '' @ params_id req),
         Redirect (Path ''/catalog/bookinstances''),
         Render ''index''
           [(''title'', LStr ''Delete Book Instance''),
            (''book_instance'', LPopulatedInstance None),
            (''route'', LStr ''bookinstance_delete.ejs'')]])"
  by (simp add: author_delete_get_def bookinstance_delete_get_def)

theorem delete_get_not_found_falls_through_witness:
  "author_delete_get library \<lparr>params_id = ''zz'', body = form []\<rparr> =
     [Debug ''id not found on delete: zz'',
      Redirect (Path ''/catalog/authors''),
      Render ''index''
        [(''title'', LStr ''Delete Author''),
         (''author'', LAuthor None),
         (''author_books'', LBookSummaries []),
         (''route'', LStr ''author_delete.ejs'')]] \<and>
   bookinstance_delete_get library \<lparr>params_id = ''zz'', body = form []\<rparr> =
     [Debug ''id not found on delete: zz'',
      Redirect (Path ''/catalog/bookinstances''),
      Render ''index''
        [(''title'', LStr ''Delete Book Instance''),
         (''book_instance'', LPopulatedInstance None),
         (''route'', LStr ''bookinstance_delete.ejs'')]]"
  using delete_get_not_found_falls_through [of library "\<lparr>params_id = ''zz'', body = form []\<rparr>"]
  by (simp add: library_def findById_def books_by_author_def)

section \<open>Update requests for an identifier that does not resolve\<close>

text \<open>
  Claim C8, as amended. An update GET request whose path identifier does not resolve hands
  \<^verbatim>\<open>next\<close> an error with status 404 and renders no view, for authors and book instances.
  The update POST handlers do not look the identifier up before they validate: a
  submission that fails validation leaves the store as it is and renders the form again,
  whether or not the identifier resolves.
\<close>

theorem update_not_found:
  "(findById author_id (authors st) (params_id req) = None \<longrightarrow>
      author_update_get st req =
        [Debug (''id not found on update: '' @ params_id req),
         Next (Error ''author not found'' (Some 404))]) \<and>
   (findById bookinstance_id (bookinstances st) (params_id req) = None \<longrightarrow>
      bookinstance_update_get st req =
        [Debug (''id not found on update: '' @ params_id req),
         Next (Error ''book instance not found'' (Some 404))]) \<and>
   (snd (run_chains L author_update_validators (body req)) \<noteq> [] \<longrightarrow>
      author_update_post L st req =
        (st, [Render ''index''
                [(''title'', LStr ''Update Author''),
                 (''author'', LAuthor (Some
                    \<lparr>author_id = params_id req,
                     first_name = trimmed_escaped L (body req ''first_name''),
                     family_name = trimmed_escaped L (body req ''family_name''),
                     date_of_birth = trimmed_escaped L (body req ''date_of_birth''),
                     date_of_death = trimmed_escaped L (body req ''date_of_death'')\<rparr>)),
                 (''errors'',
                  LErrors (snd (run_chains L author_update_validators (body req)))),
                 (''route'', LStr ''author_form.ejs'')]])) \<and>
   (snd (run_chains L bookinstance_update_validators (body req)) \<noteq> [] \<longrightarrow>
      bookinstance_update_post L st req =
        (st, [Render ''index''
                [(''title'', LStr ''Update Book Instance''),
                 (''book_list'', LBooks (books st)),
                 (''errors'',
                  LErrors (snd (run_chains L bookinstance_update_validators (body req)))),
                 (''route'', LStr ''bookinstance_update.ejs'')]]))"
proof (intro conjI impI)
  assume "findById author_id (authors st) (params_id req) = None"
  then show "author_update_get st req =
        [Debug (''id not found on update: '' @ params_id req),
         Next (Error ''author not found'' (Some 404))]"
    by (simp add: author_update_get_def)
next
  assume "findById bookinstance_id (bookinstances st) (params_id req) = None"
  then show "bookinstance_update_get st req =
        [Debug (''id not found on update: '' @ params_id req),
         Next (Error ''book instance not found'' (Some 404))]"
    by (simp add: bookinstance_update_get_def)
next
  assume "snd (run_chains L author_update_validators (body req)) \<noteq> []"
  then show "author_update_post L st req =
        (st, [Render ''index''
                [(''title'', LStr ''Update Author''),
                 (''author'', LAuthor (Some
                    \<lparr>author_id = params_id req,
                     first_name = trimmed_escaped L (body req ''first_name''),
                     family_name = trimmed_escaped L (body req ''family_name''),
                     date_of_birth = trimmed_escaped L (body req ''date_of_birth''),
                     date_of_death = trimmed_escaped L (body req ''date_of_death'')\<rparr>)),
                 (''errors'',
                  LErrors (snd (run_chains L author_update_validators (body req)))),
                 (''route'', LStr ''author_form.ejs'')]])"
    by (rule author_update_post_invalid)
next
  assume "snd (run_chains L bookinstance_update_validators (body req)) \<noteq> []"
  then show "bookinstance_update_post L st req =
        (st, [Render ''index''
                [(''title'', LStr ''Update Book Instance''),
                 (''book_list'', LBooks (books st)),
                 (''errors'',
                  LErrors (snd (run_chains L bookinstance_update_validators (body req)))),
                 (''route'', LStr ''bookinstance_update.ejs'')]])"
    by (rule bookinstance_update_post_invalid)
qed

theorem update_not_found_witness:
  "author_update_get library \<lparr>params_id = ''zz'', body = form []\<rparr> =
     [Debug ''id not found on update: zz'', Next (Error ''author not found'' (Some 404))] \<and>
   bookinstance_update_get library \<lparr>params_id = ''zz'', body = form []\<rparr> =
     [Debug ''id not found on update: zz'',
      Next (Error ''book instance not found'' (Some 404))] \<and>
   fst (bookinstance_update_post ascii library \<lparr>params_id = ''zz'', body = form []\<rparr>) =
     library \<and>
   list_ex is_Render
     (snd (bookinstance_update_post ascii library \<lparr>params_id = ''zz'', body = form []\<rparr>))"
proof -
  have t: "ascii_trim [] = []"
    by (simp add: ascii_trim_def)
  have v: "snd (run_chains ascii bookinstance_update_validators (form [])) \<noteq> []"
    by (simp add: bookinstance_update_run ascii_def form_def t)
  have f: "findById author_id (authors library) ''zz'' = None"
    "findById bookinstance_id (bookinstances library) ''zz'' = None"
    by (simp_all add: library_def findById_def)
  show ?thesis
    using update_not_found [of library "\<lparr>params_id = ''zz'', body = form []\<rparr>" ascii] v f
    by simp
qed

text \<open>
  The claim as stated fails for POST: for the identifier \<open>zz\<close>, which does not resolve, a
  submission without a family name is answered by the form, and a valid submission by a
  TypeError (the \<^verbatim>\<open>url\<close> of \<^verbatim>\<open>null\<close>), which carries no status.
\<close>

theorem update_post_not_found_no_404:
  "findById author_id (authors library) ''zz'' = None \<and>
   author_update_post ascii library
     \<lparr>params_id = ''zz'', body = form [(''first_name'', ''Jane'')]\<rparr> =
     (library,
      [Render ''index''
         [(''title'', LStr ''Update Author''),
          (''author'', LAuthor (Some
             \<lparr>author_id = ''zz'', first_name = Str ''Jane'', family_name = Str [],
              date_of_birth = Str [], date_of_death = Str []\<rparr>)),
          (''errors'', LErrors
             [\<lparr>path = ''family_name'', msg = ''Family Name must not be empty'',
               rejected = Str []\<rparr>]),
          (''route'', LStr ''author_form.ejs'')]]) \<and>
   snd (author_update_post ascii library
     \<lparr>params_id = ''zz'',
      body = form [(''first_name'', ''Jane''), (''family_name'', ''Austen'')]\<rparr>) =
     [Next (TypeError ''Cannot read properties of null (reading url)'')]"
proof -
  have t: "ascii_trim [] = []" "ascii_trim ''Jane'' = ''Jane''"
    "ascii_trim ''Austen'' = ''Austen''"
    by (simp_all add: ascii_trim_def whitespace_def)
  have e: "ascii_escape [] = []" "ascii_escape ''Jane'' = ''Jane''"
    "ascii_escape ''Austen'' = ''Austen''"
    by (simp_all add: ascii_escape_def escape_char_def)
  have f: "findById author_id (authors library) ''zz'' = None"
    by (simp add: library_def findById_def)
  show ?thesis
    by (simp add: f author_update_post_def author_update_run findByIdAndUpdate_def
        ascii_def form_def t e)
qed

section \<open>Which document a delete removes\<close>



section \<open>The two book instance modules\<close>

text \<open>
  Claim C10. The module with the stubs and the full module implement the same
  \<^verbatim>\<open>bookinstance_list\<close> and \<^verbatim>\<open>bookinstance_detail\<close>: the list handlers make the same render
  call; the detail handlers make the same calls apart from the debug line of the full
  module, that is the same render call when the instance exists and the same \<^verbatim>\<open>next\<close>
  with the 404 error "Book copy not found" when it does not.
\<close>

theorem bookinstance_modules_agree:
  "bookinstance_list st req = stub_bookinstance_list st req \<and>
   responses (bookinstance_detail st req) = stub_bookinstance_detail st req \<and>
   responses (stub_bookinstance_detail st req) = stub_bookinstance_detail st req \<and>
   (findById bookinstance_id (bookinstances st) (params_id req) = Some bi \<longrightarrow>
      bookinstance_detail st req = stub_bookinstance_detail st req \<and>
      stub_bookinstance_detail st req =
        [Render ''index''
           [(''title'', LStr ''Book:''),
            (''bookinstance'', LPopulatedInstance (Some (populate_book st bi))),
            (''route'', LStr ''bookinstance_detail.ejs'')]]) \<and>
   (findById bookinstance_id (bookinstances st) (params_id req) = None \<longrightarrow>
      bookinstance_detail st req =
        Debug (''id not found on get: '' @ params_id req) # stub_bookinstance_detail st req \<and>
      stub_bookinstance_detail st req = [Next (Error ''Book copy not found'' (Some 404))])"
  by (simp add: bookinstance_list_def stub_bookinstance_list_def bookinstance_detail_def
      stub_bookinstance_detail_def responses_def)

theorem bookinstance_modules_agree_witness:
  "bookinstance_detail library \<lparr>params_id = ''i1'', body = form []\<rparr> =
     [Render ''index''
        [(''title'', LStr ''Book:''),
         (''bookinstance'', LPopulatedInstance (Some
            (\<lparr>bookinstance_id = ''i1'', book = Str ''b1'', imprint = Str ''Penguin 2003'',
              status = Str ''Available'', due_back = Undefined\<rparr>,
             Some \<lparr>book_id = ''b1'', title = ''Emma'', author = ''a1'', summary = ''A novel'',
                   isbn = ''9780141439587'', genre = [''g1'']\<rparr>))),
         (''route'', LStr ''bookinstance_detail.ejs'')]] \<and>
   stub_bookinstance_detail library \<lparr>params_id = ''i1'', body = form []\<rparr> =
     bookinstance_detail library \<lparr>params_id = ''i1'', body = form []\<rparr> \<and>
   bookinstance_detail library \<lparr>params_id = ''zz'', body = form []\<rparr> =
     [Debug ''id not found on get: zz'', Next (Error ''Book copy not found'' (Some 404))] \<and>
   stub_bookinstance_detail library \<lparr>params_id = ''zz'', body = form []\<rparr> =
     [Next (Error ''Book copy not found'' (Some 404))]"
proof -
  have f: "findById bookinstance_id (bookinstances library) ''i1'' =
      Some \<lparr>bookinstance_id = ''i1'', book = Str ''b1'', imprint = Str ''Penguin 2003'',
            status = Str ''Available'', due_back = Undefined\<rparr>"
    "findById bookinstance_id (bookinstances library) ''zz'' = None"
    by (simp_all add: library_def findById_def)
  have p: "populate_book library
      \<lparr>bookinstance_id = ''i1'', book = Str ''b1'', imprint = Str ''Penguin 2003'',
       status = Str ''Available'', due_back = Undefined\<rparr> =
     (\<lparr>bookinstance_id = ''i1'', book = Str ''b1'', imprint = Str ''Penguin 2003'',
       status = Str ''Available'', due_back = Undefined\<rparr>,
      Some \<lparr>book_id = ''b1'', title = ''Emma'', author = ''a1'', summary = ''A novel'',
            isbn = ''9780141439587'', genre = [''g1'']\<rparr>)"
    by (simp add: populate_book_def library_def findById_def)
  show ?thesis
    using bookinstance_modules_agree [of library "\<lparr>params_id = ''i1'', body = form []\<rparr>"]
      bookinstance_modules_agree [of library "\<lparr>params_id = ''zz'', body = form []\<rparr>"]
    by (simp add: f p)
qed

end
